theory Spec2Isabelle
  imports Complex_Main "HOL-Library.AList" "HOL-Library.Log_Nat"
begin

text \<open>
  A shallow embedding of the semantic engine of the Lox interpreter: the operators and
  formatting of \<^verbatim>\<open>lox/runtime.py\<close>, and the evaluator, the object model and the
  validation hook of variable declarations of \<^verbatim>\<open>lox/ast.py\<close>. The interpreter is
  written in Python, so the values it computes with are Python objects and the failures it
  can end in are Python exceptions; both are part of the model.
\<close>

section \<open>Runtime values\<close>

type_synonym ref = nat

text \<open>
  A Python float is an IEEE double. Its values are NaN, the two infinities (the flag is the
  sign bit), negative zero, and the finite values, held as the rational they denote;
  \<open>FFin 0\<close> is positive zero.

  A value is \<^verbatim>\<open>None\<close>, a \<^verbatim>\<open>bool\<close>, an \<^verbatim>\<open>int\<close> (unbounded: the
  transformer builds one from every number literal without a decimal point), a
  \<^verbatim>\<open>float\<close>, a \<^verbatim>\<open>str\<close>, or a reference to an object in the store: a
  \<^verbatim>\<open>LoxFunction\<close>, a \<^verbatim>\<open>LoxClass\<close>, a \<^verbatim>\<open>LoxInstance\<close>, a
  \<^verbatim>\<open>LoxSuper\<close>, or the \<^verbatim>\<open>lambda\<close> that \<^verbatim>\<open>LoxInstance.get\<close> returns
  for \<open>init\<close>. Two references are the same object exactly when they are equal.

  \<^verbatim>\<open>Getattr.eval\<close> falls back on \<^verbatim>\<open>getattr\<close> of the host for every receiver
  that is neither an instance nor a \<^verbatim>\<open>LoxSuper\<close>, so a program also reaches objects
  of the interpreter itself. Three of them are values here: \<open>VWrapped i b\<close> is the closure
  \<^verbatim>\<open>wrapped_call\<close> that \<^verbatim>\<open>LoxInstance.get\<close> stores in the attribute
  \<^verbatim>\<open>__call__\<close> of the bound method \<open>b\<close> of instance \<open>i\<close>; \<open>VCtx c\<close> is the
  environment object of frame \<open>c\<close>, the field \<^verbatim>\<open>ctx\<close> of a function; and
  \<open>VGetitem c\<close> is its bound method \<^verbatim>\<open>__getitem__\<close>, the method behind the
  subscripts \<^verbatim>\<open>ctx[name]\<close> of the source. \<open>VHost\<close> stands for any other Python
  object that the reflective fallbacks can produce (a bound method of \<^verbatim>\<open>str\<close>,
  say); such objects are kept opaque and only the operations of the record \<open>host\<close> below
  look inside them.

  An exception is represented by its class. The message is kept for
  \<^verbatim>\<open>RuntimeError\<close> and \<^verbatim>\<open>SemanticError\<close>; \<^verbatim>\<open>RecursionError\<close> is raised
  by Python when the native stack is exhausted and is a subclass of
  \<^verbatim>\<open>RuntimeError\<close>. \<open>LoxReturn\<close> carries the returned value. \<^verbatim>\<open>KeyError\<close> is
  what a subscript of an environment raises for a name that is not bound
  (\<^verbatim>\<open>Var.eval\<close>, \<^verbatim>\<open>This.eval\<close> and \<^verbatim>\<open>Super.eval\<close> catch it).
\<close>

datatype pyfloat = FNaN | FInf bool | FNegZero | FFin rat

datatype val =
    VNone
  | VBool bool
  | VInt int
  | VFloat pyfloat
  | VStr string
  | VFunction ref
  | VClass ref
  | VInstance ref
  | VSuper ref
  | VLambda ref
  | VWrapped ref ref
  | VCtx ref
  | VGetitem ref
  | VHost nat

datatype exn =
    LoxError
  | NameError
  | TypeError
  | AttributeError
  | RuntimeError string
  | RecursionError
  | SemanticError string
  | OverflowError
  | ZeroDivisionError
  | KeyError
  | LoxReturn val

section \<open>Host numbers\<close>

text \<open>
  Arithmetic of the host. An exact result is rounded to the nearest double, ties to the
  even significand (53 bits, exponents down to \<open>-1074\<close>), and a result that rounds to
  \<open>2^1024\<close> or more overflows. \<open>ilog2 q\<close> is the exponent of the binade of \<open>q > 0\<close>.
  The first argument of \<open>fl_round\<close> is the sign of the result, the second its exact
  magnitude.
\<close>

definition pow2 :: "int \<Rightarrow> rat" where
  "pow2 e = (if 0 \<le> e then 2 ^ nat e else 1 / 2 ^ nat (- e))"

definition ilog2 :: "rat \<Rightarrow> int" where
  "ilog2 q = (case quotient_of q of (n, d) \<Rightarrow>
     (let k = bitlen n - bitlen d
      in if pow2 k \<le> q then k else k - 1))"

definition round_half_even :: "rat \<Rightarrow> int" where
  "round_half_even q = (let f = \<lfloor>q\<rfloor>; r = q - of_int f
     in if r < 1 / 2 then f else if 1 / 2 < r then f + 1 else if even f then f else f + 1)"

definition mk_fin :: "bool \<Rightarrow> rat \<Rightarrow> pyfloat" where
  "mk_fin s m = (if m = 0 then (if s then FNegZero else FFin 0) else FFin (if s then - m else m))"

definition fl_round :: "bool \<Rightarrow> rat \<Rightarrow> pyfloat" where
  "fl_round s q = (if q = 0 then mk_fin s 0 else
     (let e = max (ilog2 q - 52) (- 1074);
          v = of_int (round_half_even (q / pow2 e)) * pow2 e
      in if pow2 1024 \<le> v then FInf s else mk_fin s v))"

fun fsign :: "pyfloat \<Rightarrow> bool" where
  "fsign FNaN = False"
| "fsign (FInf s) = s"
| "fsign FNegZero = True"
| "fsign (FFin q) = (q < 0)"

fun fval :: "pyfloat \<Rightarrow> rat" where
  "fval (FFin q) = q"
| "fval _ = 0"

fun is_finite :: "pyfloat \<Rightarrow> bool" where
  "is_finite (FFin q) = True"
| "is_finite FNegZero = True"
| "is_finite _ = False"

fun float_neg :: "pyfloat \<Rightarrow> pyfloat" where
  "float_neg FNaN = FNaN"
| "float_neg (FInf s) = FInf (\<not> s)"
| "float_neg FNegZero = FFin 0"
| "float_neg (FFin q) = (if q = 0 then FNegZero else FFin (- q))"

fun float_add :: "pyfloat \<Rightarrow> pyfloat \<Rightarrow> pyfloat" where
  "float_add FNaN y = FNaN"
| "float_add x FNaN = FNaN"
| "float_add (FInf a) (FInf b) = (if a = b then FInf a else FNaN)"
| "float_add (FInf a) y = FInf a"
| "float_add x (FInf b) = FInf b"
| "float_add x y =
     (let v = fval x + fval y
      in if v = 0 then (if x = FNegZero \<and> y = FNegZero then FNegZero else FFin 0)
         else fl_round (v < 0) \<bar>v\<bar>)"

definition float_sub :: "pyfloat \<Rightarrow> pyfloat \<Rightarrow> pyfloat" where
  "float_sub x y = float_add x (float_neg y)"

fun float_mul :: "pyfloat \<Rightarrow> pyfloat \<Rightarrow> pyfloat" where
  "float_mul FNaN y = FNaN"
| "float_mul x FNaN = FNaN"
| "float_mul (FInf a) y =
     (if is_finite y \<and> fval y = 0 then FNaN else FInf (a \<noteq> fsign y))"
| "float_mul x (FInf b) =
     (if is_finite x \<and> fval x = 0 then FNaN else FInf (fsign x \<noteq> b))"
| "float_mul x y = fl_round (fsign x \<noteq> fsign y) (\<bar>fval x\<bar> * \<bar>fval y\<bar>)"

fun float_div :: "pyfloat \<Rightarrow> pyfloat \<Rightarrow> exn + pyfloat" where
  "float_div x FNegZero = Inl ZeroDivisionError"
| "float_div x (FFin q) =
     (if q = 0 then Inl ZeroDivisionError
      else case x of
          FNaN \<Rightarrow> Inr FNaN
        | FInf a \<Rightarrow> Inr (FInf (a \<noteq> (q < 0)))
        | _ \<Rightarrow> Inr (fl_round (fsign x \<noteq> (q < 0)) (\<bar>fval x\<bar> / \<bar>q\<bar>)))"
| "float_div x FNaN = Inr FNaN"
| "float_div x (FInf b) =
     (case x of
          FNaN \<Rightarrow> Inr FNaN
        | FInf a \<Rightarrow> Inr FNaN
        | _ \<Rightarrow> Inr (mk_fin (fsign x \<noteq> b) 0))"

text \<open>
  Converting an \<^verbatim>\<open>int\<close> to a \<^verbatim>\<open>float\<close> rounds it, and raises
  \<^verbatim>\<open>OverflowError\<close> where the rounded value would be infinite. A binary operation on an
  \<^verbatim>\<open>int\<close> and a \<^verbatim>\<open>float\<close> converts the \<^verbatim>\<open>int\<close> first; on two
  \<^verbatim>\<open>int\<close>s it is exact, except for true division, which rounds the exact quotient.
  A \<^verbatim>\<open>bool\<close> is an \<^verbatim>\<open>int\<close> (\<^verbatim>\<open>bool\<close> is a subclass of \<^verbatim>\<open>int\<close>), so
  \<open>as_num\<close>, which is the test \<^verbatim>\<open>isinstance(v, (int, float))\<close>, accepts it.
\<close>

definition int_to_float :: "int \<Rightarrow> exn + pyfloat" where
  "int_to_float n =
     (case fl_round (n < 0) \<bar>of_int n\<bar> of FInf s \<Rightarrow> Inl OverflowError | f \<Rightarrow> Inr f)"

datatype pynum = NInt int | NFloat pyfloat

fun as_num :: "val \<Rightarrow> pynum option" where
  "as_num (VBool b) = Some (NInt (if b then 1 else 0))"
| "as_num (VInt n) = Some (NInt n)"
| "as_num (VFloat f) = Some (NFloat f)"
| "as_num _ = None"

fun of_num :: "pynum \<Rightarrow> val" where
  "of_num (NInt n) = VInt n"
| "of_num (NFloat f) = VFloat f"

fun num_arith ::
  "(int \<Rightarrow> int \<Rightarrow> exn + pynum) \<Rightarrow> (pyfloat \<Rightarrow> pyfloat \<Rightarrow> exn + pyfloat) \<Rightarrow> pynum \<Rightarrow> pynum \<Rightarrow> exn + pynum"
where
  "num_arith iop fop (NInt a) (NInt b) = iop a b"
| "num_arith iop fop (NInt a) (NFloat y) =
     (case int_to_float a of Inl e \<Rightarrow> Inl e | Inr x \<Rightarrow> map_sum id NFloat (fop x y))"
| "num_arith iop fop (NFloat x) (NInt b) =
     (case int_to_float b of Inl e \<Rightarrow> Inl e | Inr y \<Rightarrow> map_sum id NFloat (fop x y))"
| "num_arith iop fop (NFloat x) (NFloat y) = map_sum id NFloat (fop x y)"

definition int_truediv :: "int \<Rightarrow> int \<Rightarrow> exn + pynum" where
  "int_truediv a b =
     (if b = 0 then Inl ZeroDivisionError
      else case fl_round ((a < 0) \<noteq> (b < 0)) (\<bar>of_int a\<bar> / \<bar>of_int b\<bar>) of
          FInf s \<Rightarrow> Inl OverflowError
        | f \<Rightarrow> Inr (NFloat f))"

definition py_add :: "pynum \<Rightarrow> pynum \<Rightarrow> exn + pynum" where
  "py_add = num_arith (\<lambda>a b. Inr (NInt (a + b))) (\<lambda>x y. Inr (float_add x y))"

definition py_sub :: "pynum \<Rightarrow> pynum \<Rightarrow> exn + pynum" where
  "py_sub = num_arith (\<lambda>a b. Inr (NInt (a - b))) (\<lambda>x y. Inr (float_sub x y))"

definition py_mul :: "pynum \<Rightarrow> pynum \<Rightarrow> exn + pynum" where
  "py_mul = num_arith (\<lambda>a b. Inr (NInt (a * b))) (\<lambda>x y. Inr (float_mul x y))"

definition py_truediv :: "pynum \<Rightarrow> pynum \<Rightarrow> exn + pynum" where
  "py_truediv = num_arith int_truediv float_div"

fun py_neg :: "pynum \<Rightarrow> pynum" where
  "py_neg (NInt n) = NInt (- n)"
| "py_neg (NFloat f) = NFloat (float_neg f)"

text \<open>
  Comparison of two numbers is exact, also between an \<^verbatim>\<open>int\<close> and a
  \<^verbatim>\<open>float\<close>; every comparison with NaN is false.
\<close>

datatype ext = ENegInf | EFin rat | EPosInf

fun num_ext :: "pynum \<Rightarrow> ext option" where
  "num_ext (NInt n) = Some (EFin (of_int n))"
| "num_ext (NFloat FNaN) = None"
| "num_ext (NFloat (FInf s)) = Some (if s then ENegInf else EPosInf)"
| "num_ext (NFloat FNegZero) = Some (EFin 0)"
| "num_ext (NFloat (FFin q)) = Some (EFin q)"

fun ext_less :: "ext \<Rightarrow> ext \<Rightarrow> bool" where
  "ext_less ENegInf y = (y \<noteq> ENegInf)"
| "ext_less (EFin a) (EFin b) = (a < b)"
| "ext_less (EFin a) EPosInf = True"
| "ext_less x y = False"

definition py_eq_num :: "pynum \<Rightarrow> pynum \<Rightarrow> bool" where
  "py_eq_num a b = (case (num_ext a, num_ext b) of (Some x, Some y) \<Rightarrow> x = y | _ \<Rightarrow> False)"

definition py_lt :: "pynum \<Rightarrow> pynum \<Rightarrow> bool" where
  "py_lt a b = (case (num_ext a, num_ext b) of (Some x, Some y) \<Rightarrow> ext_less x y | _ \<Rightarrow> False)"

definition py_le :: "pynum \<Rightarrow> pynum \<Rightarrow> bool" where
  "py_le a b =
     (case (num_ext a, num_ext b) of (Some x, Some y) \<Rightarrow> x = y \<or> ext_less x y | _ \<Rightarrow> False)"


section \<open>Syntax trees\<close>

text \<open>
  The node classes of \<^verbatim>\<open>lox/ast.py\<close>. The field \<^verbatim>\<open>op\<close> of a \<^verbatim>\<open>BinOp\<close> or
  \<^verbatim>\<open>UnaryOp\<close> holds one of the functions of the runtime, named here by a tag. An
  expression in statement position has no node of its own in the source (the expression
  node itself is an element of the statement list); \<open>ExprStmt\<close> marks that position.
\<close>

datatype binop = Op_add | Op_sub | Op_mul | Op_truediv | Op_ge | Op_gt | Op_le | Op_lt | Op_eq | Op_ne

datatype unop = Op_not | Op_neg

datatype expr =
    BinOp expr expr binop
  | Var string
  | Literal val
  | And expr expr
  | Or expr expr
  | UnaryOp unop expr
  | Call expr "expr list"
  | This
  | Super string
  | Assign string expr
  | Getattr expr string
  | Setattr expr string expr

datatype stmt =
    Print expr
  | Return expr
  | VarDef string expr
  | If_stmt expr stmt stmt
  | While expr stmt
  | Block "stmt list"
  | Function string "string list" "stmt list"
  | Class string "expr option" "stmt list"
  | ExprStmt expr

datatype program = Program "stmt list"

section \<open>Runtime objects and the store\<close>

text \<open>
  The objects of the runtime, as the dataclasses of \<^verbatim>\<open>lox/ast.py\<close> declare them, and
  the store that holds them by address: functions, classes, instances,
  \<^verbatim>\<open>LoxSuper\<close> objects (each holds its superclass, which the constructor does not
  check to be a class), the \<^verbatim>\<open>init\<close> lambdas (each holds its instance) and the frames
  of the environment. \<open>call_attr s b\<close> is the attribute \<^verbatim>\<open>__call__\<close> in the
  dictionary of function object \<open>b\<close>: \<open>Some i\<close> where \<^verbatim>\<open>LoxInstance.get\<close> on instance
  \<open>i\<close> has stored its closure \<^verbatim>\<open>wrapped_call\<close> there, \<open>None\<close> where the object has
  no such attribute of its own. A dictionary is an association list with unique keys.
  \<open>stdout\<close> is the list of lines printed so far.
\<close>

record lox_function =
  f_name :: string
  f_arg_names :: "string list"
  f_body :: "stmt list"
  f_ctx :: ref

record lox_class =
  c_name :: string
  c_methods :: "(string \<times> ref) list"
  c_base :: "ref option"

record lox_instance =
  i_lox_class :: ref
  i_fields :: "(string \<times> val) list"

record frame =
  vars :: "(string \<times> val) list"
  parent :: "ref option"

record state =
  fun_heap :: "ref \<Rightarrow> lox_function"
  class_heap :: "ref \<Rightarrow> lox_class"
  instance_heap :: "ref \<Rightarrow> lox_instance"
  super_heap :: "ref \<Rightarrow> ref option"
  call_attr :: "ref \<Rightarrow> ref option"
  lambda_heap :: "ref \<Rightarrow> ref"
  frame_heap :: "ref \<Rightarrow> frame"
  next_ref :: ref
  stdout :: "string list"

text \<open>
  What the model leaves to the host language: the text of a finite float that is not an
  integer (\<open>float_repr\<close>); the field-by-field \<^verbatim>\<open>==\<close> that \<^verbatim>\<open>@dataclass\<close>
  generates, on two distinct objects of one class (\<open>dataclass_eq\<close>; it compares
  environments and syntax trees, whose classes are not among the sources); the text of an
  environment object and of its bound method (\<open>str_object\<close>) and what that method answers
  to anything but one string (\<open>getitem_other\<close>); and equality, text, attribute access and
  calls of opaque host objects, as well as every attribute of an object of the interpreter
  that the model does not resolve itself.
\<close>

record host =
  float_repr :: "rat \<Rightarrow> string"
  dataclass_eq :: "state \<Rightarrow> val \<Rightarrow> val \<Rightarrow> bool"
  host_eq :: "nat \<Rightarrow> nat \<Rightarrow> bool"
  host_show :: "state \<Rightarrow> nat \<Rightarrow> string"
  str_object :: "state \<Rightarrow> val \<Rightarrow> string"
  getitem_other :: "state \<Rightarrow> ref \<Rightarrow> val list \<Rightarrow> exn + val"
  host_getattr :: "state \<Rightarrow> val \<Rightarrow> string \<Rightarrow> exn + val"
  host_setattr :: "state \<Rightarrow> val \<Rightarrow> string \<Rightarrow> val \<Rightarrow> (exn + unit) \<times> state"
  host_call :: "state \<Rightarrow> nat \<Rightarrow> val list \<Rightarrow> (exn + val) \<times> state"

section \<open>Operators of the runtime\<close>

text \<open>
  The operators of \<^verbatim>\<open>lox/runtime.py\<close>, in the order and with the tests of the source.
\<close>

definition truthy :: "val \<Rightarrow> bool" where
  "truthy v = (case v of VNone \<Rightarrow> False | VBool b \<Rightarrow> b | _ \<Rightarrow> True)"

definition is_lox_true :: "val \<Rightarrow> bool" where
  "is_lox_true v = truthy v"

definition isinstance_bool :: "val \<Rightarrow> bool" where
  "isinstance_bool v = (case v of VBool b \<Rightarrow> True | _ \<Rightarrow> False)"

definition lox_add :: "val \<Rightarrow> val \<Rightarrow> exn + val" where
  "lox_add left right =
     (if isinstance_bool left \<or> isinstance_bool right then Inl LoxError
      else case (as_num left, as_num right) of
          (Some a, Some b) \<Rightarrow> map_sum id of_num (py_add a b)
        | _ \<Rightarrow> (case (left, right) of
              (VStr a, VStr b) \<Rightarrow> Inr (VStr (a @ b))
            | _ \<Rightarrow> Inl LoxError))"

definition lox_sub :: "val \<Rightarrow> val \<Rightarrow> exn + val" where
  "lox_sub left right =
     (if isinstance_bool left \<or> isinstance_bool right then Inl LoxError
      else case (as_num left, as_num right) of
          (Some a, Some b) \<Rightarrow> map_sum id of_num (py_sub a b)
        | _ \<Rightarrow> Inl LoxError)"

definition lox_mul :: "val \<Rightarrow> val \<Rightarrow> exn + val" where
  "lox_mul left right =
     (case (as_num left, as_num right) of
          (Some a, Some b) \<Rightarrow> map_sum id of_num (py_mul a b)
        | _ \<Rightarrow> Inl LoxError)"

definition lox_truediv :: "val \<Rightarrow> val \<Rightarrow> exn + val" where
  "lox_truediv left right =
     (case (as_num left, as_num right) of
          (Some a, Some b) \<Rightarrow>
            if py_eq_num b (NInt 0) then Inr (VFloat FNaN)
            else map_sum id of_num (py_truediv a b)
        | _ \<Rightarrow> Inl LoxError)"

definition lox_ge :: "val \<Rightarrow> val \<Rightarrow> exn + val" where
  "lox_ge left right =
     (case (as_num left, as_num right) of
          (Some a, Some b) \<Rightarrow> Inr (VBool (py_le b a))
        | _ \<Rightarrow> Inl LoxError)"

definition lox_le :: "val \<Rightarrow> val \<Rightarrow> exn + val" where
  "lox_le left right =
     (case (as_num left, as_num right) of
          (Some a, Some b) \<Rightarrow> Inr (VBool (py_le a b))
        | _ \<Rightarrow> Inl LoxError)"

definition lox_gt :: "val \<Rightarrow> val \<Rightarrow> exn + val" where
  "lox_gt left right =
     (case (as_num left, as_num right) of
          (Some a, Some b) \<Rightarrow> Inr (VBool (py_lt b a))
        | _ \<Rightarrow> Inl LoxError)"

definition lox_lt :: "val \<Rightarrow> val \<Rightarrow> exn + val" where
  "lox_lt left right =
     (case (as_num left, as_num right) of
          (Some a, Some b) \<Rightarrow> Inr (VBool (py_lt a b))
        | _ \<Rightarrow> Inl LoxError)"

text \<open>
  \<open>py_type\<close> is \<^verbatim>\<open>type(v)\<close> and \<open>py_is\<close> the identity of two objects of the store.
  \<open>py_eq\<close> is \<^verbatim>\<open>left == right\<close> for two values of the same class, the only case in
  which \<open>lox_eq\<close> evaluates it. On dataclass objects the generated \<^verbatim>\<open>__eq__\<close> compares
  the tuples of fields, and tuples and dictionaries take identical elements as equal
  without comparing them: an object is therefore equal to itself, and two distinct objects
  are compared by the host. Two functions of the host are equal when they are the same
  object (there is one \<^verbatim>\<open>wrapped_call\<close> for each bound method), and two bound methods
  when they are bound to the same object.
\<close>

datatype pytype =
    T_NoneType | T_bool | T_int | T_float | T_str
  | T_LoxFunction | T_LoxClass | T_LoxInstance | T_LoxSuper | T_function | T_Ctx | T_method
  | T_host

fun py_type :: "val \<Rightarrow> pytype" where
  "py_type VNone = T_NoneType"
| "py_type (VBool b) = T_bool"
| "py_type (VInt n) = T_int"
| "py_type (VFloat f) = T_float"
| "py_type (VStr t) = T_str"
| "py_type (VFunction r) = T_LoxFunction"
| "py_type (VClass r) = T_LoxClass"
| "py_type (VInstance r) = T_LoxInstance"
| "py_type (VSuper r) = T_LoxSuper"
| "py_type (VLambda r) = T_function"
| "py_type (VWrapped i b) = T_function"
| "py_type (VCtx c) = T_Ctx"
| "py_type (VGetitem c) = T_method"
| "py_type (VHost h) = T_host"

fun obj_ref :: "val \<Rightarrow> ref option" where
  "obj_ref (VFunction r) = Some r"
| "obj_ref (VClass r) = Some r"
| "obj_ref (VInstance r) = Some r"
| "obj_ref (VSuper r) = Some r"
| "obj_ref (VLambda r) = Some r"
| "obj_ref (VCtx r) = Some r"
| "obj_ref v = None"

definition py_is :: "val \<Rightarrow> val \<Rightarrow> bool" where
  "py_is x y = (py_type x = py_type y \<and> obj_ref x \<noteq> None \<and> obj_ref x = obj_ref y)"

definition py_eq :: "host \<Rightarrow> state \<Rightarrow> val \<Rightarrow> val \<Rightarrow> bool" where
  "py_eq H s x y =
     (case x of
        VNone \<Rightarrow> y = VNone
      | VBool a \<Rightarrow> y = VBool a
      | VInt a \<Rightarrow> y = VInt a
      | VFloat a \<Rightarrow> (case y of VFloat b \<Rightarrow> py_eq_num (NFloat a) (NFloat b) | _ \<Rightarrow> False)
      | VStr a \<Rightarrow> y = VStr a
      | VLambda a \<Rightarrow> y = VLambda a
      | VWrapped i b \<Rightarrow> (case y of VWrapped j c \<Rightarrow> b = c | _ \<Rightarrow> False)
      | VGetitem a \<Rightarrow> y = VGetitem a
      | VHost a \<Rightarrow> (case y of VHost b \<Rightarrow> host_eq H a b | _ \<Rightarrow> False)
      | _ \<Rightarrow> py_is x y \<or> dataclass_eq H s x y)"

definition lox_eq :: "host \<Rightarrow> state \<Rightarrow> val \<Rightarrow> val \<Rightarrow> bool" where
  "lox_eq H s left right =
     (if py_type left \<noteq> py_type right then False
      else if py_type left = T_LoxFunction then py_is left right
      else py_eq H s left right)"

definition lox_ne :: "host \<Rightarrow> state \<Rightarrow> val \<Rightarrow> val \<Rightarrow> bool" where
  "lox_ne H s left right = (\<not> lox_eq H s left right)"

definition lox_not :: "val \<Rightarrow> val" where
  "lox_not v = VBool (\<not> truthy v)"

definition lox_neg :: "val \<Rightarrow> exn + val" where
  "lox_neg v =
     (case as_num v of
          Some a \<Rightarrow> if py_eq_num a (NInt 0) then Inr (VFloat FNegZero) else Inr (of_num (py_neg a))
        | None \<Rightarrow> Inl LoxError)"

fun apply_binop :: "host \<Rightarrow> state \<Rightarrow> binop \<Rightarrow> val \<Rightarrow> val \<Rightarrow> exn + val" where
  "apply_binop H s Op_add l r = lox_add l r"
| "apply_binop H s Op_sub l r = lox_sub l r"
| "apply_binop H s Op_mul l r = lox_mul l r"
| "apply_binop H s Op_truediv l r = lox_truediv l r"
| "apply_binop H s Op_ge l r = lox_ge l r"
| "apply_binop H s Op_gt l r = lox_gt l r"
| "apply_binop H s Op_le l r = lox_le l r"
| "apply_binop H s Op_lt l r = lox_lt l r"
| "apply_binop H s Op_eq l r = Inr (VBool (lox_eq H s l r))"
| "apply_binop H s Op_ne l r = Inr (VBool (lox_ne H s l r))"

fun apply_unop :: "unop \<Rightarrow> val \<Rightarrow> exn + val" where
  "apply_unop Op_not v = Inr (lox_not v)"
| "apply_unop Op_neg v = lox_neg v"

section \<open>Formatting\<close>

text \<open>
  \<open>show_value\<close> is the function \<^verbatim>\<open>show\<close>, and \<open>str_int\<close> the decimal text of an
  \<^verbatim>\<open>int\<close>. The text of NaN and of the infinities is fixed by the host.
\<close>

function str_nat :: "nat \<Rightarrow> string" where
  "str_nat n =
     (if n < 10 then [''0123456789'' ! n]
      else str_nat (n div 10) @ [''0123456789'' ! (n mod 10)])"
  by pat_completeness auto
termination
  by (relation "measure id") auto

declare str_nat.simps [simp del]

definition str_int :: "int \<Rightarrow> string" where
  "str_int n = (if n < 0 then CHR ''-'' # str_nat (nat (- n)) else str_nat (nat n))"

fun float_is_integer :: "pyfloat \<Rightarrow> bool" where
  "float_is_integer (FFin q) = (of_int \<lfloor>q\<rfloor> = q)"
| "float_is_integer FNegZero = True"
| "float_is_integer f = False"

fun float_to_int :: "pyfloat \<Rightarrow> int" where
  "float_to_int (FFin q) = (if q < 0 then - \<lfloor>- q\<rfloor> else \<lfloor>q\<rfloor>)"
| "float_to_int f = 0"

fun str_float :: "host \<Rightarrow> pyfloat \<Rightarrow> string" where
  "str_float H FNaN = ''nan''"
| "str_float H (FInf neg) = (if neg then ''-inf'' else ''inf'')"
| "str_float H FNegZero = ''-0.0''"
| "str_float H (FFin q) = float_repr H q"

definition show_value :: "host \<Rightarrow> state \<Rightarrow> val \<Rightarrow> string" where
  "show_value H s v =
     (case v of
        VNone \<Rightarrow> ''nil''
      | VBool b \<Rightarrow> (if b then ''true'' else ''false'')
      | VFloat f \<Rightarrow>
          (if float_is_integer f
           then (if f = FNegZero then ''-0'' else str_int (float_to_int f))
           else str_float H f)
      | VClass c \<Rightarrow> c_name (class_heap s c)
      | VInstance i \<Rightarrow> c_name (class_heap s (i_lox_class (instance_heap s i))) @ '' instance''
      | VFunction f \<Rightarrow> ''<fn '' @ f_name (fun_heap s f) @ ''>''
      | VLambda l \<Rightarrow> ''<native fn>''
      | VWrapped i b \<Rightarrow> ''<native fn>''
      | VCtx c \<Rightarrow> str_object H s v
      | VGetitem c \<Rightarrow> str_object H s v
      | VInt n \<Rightarrow> str_int n
      | VStr t \<Rightarrow> t
      | VSuper r \<Rightarrow> ''super''
      | VHost h \<Rightarrow> host_show H s h)"

definition show_repr :: "host \<Rightarrow> state \<Rightarrow> val \<Rightarrow> string" where
  "show_repr H s v = (case v of VStr t \<Rightarrow> [CHR 0x22] @ t @ [CHR 0x22] | _ \<Rightarrow> show_value H s v)"


section \<open>Environments\<close>

text \<open>
  Modelled from the spec: the class \<^verbatim>\<open>Ctx\<close> of \<^verbatim>\<open>lox/ctx.py\<close>, which is not among
  the sources. An environment is a chain of frames, each a mapping from names to values
  with a reference to its parent. \<open>ctx_child\<close> returns a new empty frame whose parent is
  the receiver; \<open>ctx_var_def\<close> inserts or overwrites in the given frame only;
  \<open>ctx_lookup\<close> searches the frame and then outward and fails when the chain is
  exhausted; \<open>ctx_assign\<close> searches the same way, overwrites the binding where it finds
  it, and fails with a NameError otherwise. \<open>ctx_new\<close> is the constructor
  \<^verbatim>\<open>Ctx(scope, parent)\<close>. The search visits at most as many frames as have been
  allocated.
\<close>

definition ctx_new :: "state \<Rightarrow> (string \<times> val) list \<Rightarrow> ref option \<Rightarrow> ref \<times> state" where
  "ctx_new s scope p =
     (next_ref s,
      s\<lparr>frame_heap := (frame_heap s)(next_ref s := \<lparr>vars = scope, parent = p\<rparr>),
        next_ref := Suc (next_ref s)\<rparr>)"

definition ctx_child :: "state \<Rightarrow> ref \<Rightarrow> ref \<times> state" where
  "ctx_child s c = ctx_new s [] (Some c)"

definition ctx_var_def :: "state \<Rightarrow> ref \<Rightarrow> string \<Rightarrow> val \<Rightarrow> state" where
  "ctx_var_def s c k v =
     s\<lparr>frame_heap := (frame_heap s)
        (c := (frame_heap s c)\<lparr>vars := AList.update k v (vars (frame_heap s c))\<rparr>)\<rparr>"

fun ctx_find :: "nat \<Rightarrow> state \<Rightarrow> ref \<Rightarrow> string \<Rightarrow> ref option" where
  "ctx_find 0 s c k = None"
| "ctx_find (Suc n) s c k =
     (case map_of (vars (frame_heap s c)) k of
        Some v \<Rightarrow> Some c
      | None \<Rightarrow> (case parent (frame_heap s c) of
            None \<Rightarrow> None
          | Some p \<Rightarrow> ctx_find n s p k))"

definition ctx_lookup :: "state \<Rightarrow> ref \<Rightarrow> string \<Rightarrow> val option" where
  "ctx_lookup s c k =
     (case ctx_find (next_ref s) s c k of
        None \<Rightarrow> None
      | Some f \<Rightarrow> map_of (vars (frame_heap s f)) k)"

definition ctx_assign :: "state \<Rightarrow> ref \<Rightarrow> string \<Rightarrow> val \<Rightarrow> (exn + unit) \<times> state" where
  "ctx_assign s c k v =
     (case ctx_find (next_ref s) s c k of
        None \<Rightarrow> (Inl NameError, s)
      | Some f \<Rightarrow> (Inr (), ctx_var_def s f k v))"

text \<open>
  Modelled from the spec: \<open>Ctx_getitem\<close> is a call of the bound method
  \<^verbatim>\<open>__getitem__\<close> of the environment object of frame \<open>c\<close>. With one string it is the
  subscript \<^verbatim>\<open>ctx[name]\<close>: the value bound to the name in the nearest frame, and a
  \<^verbatim>\<open>KeyError\<close> where no frame binds it. Every other argument list is left to the host.
\<close>

definition Ctx_getitem :: "host \<Rightarrow> state \<Rightarrow> ref \<Rightarrow> val list \<Rightarrow> exn + val" where
  "Ctx_getitem H s c args =
     (case args of
        [VStr k] \<Rightarrow> (case ctx_lookup s c k of Some v \<Rightarrow> Inr v | None \<Rightarrow> Inl KeyError)
      | _ \<Rightarrow> getitem_other H s c args)"

section \<open>Object model\<close>

text \<open>
  \<^verbatim>\<open>LoxClass.get_method\<close>, \<^verbatim>\<open>LoxFunction.bind\<close>, \<^verbatim>\<open>LoxInstance.get\<close> and
  \<^verbatim>\<open>LoxInstance.set\<close>. \<open>get_method\<close> calls itself on the base class, so its first
  argument bounds the frames it may use. In \<^verbatim>\<open>LoxInstance.get\<close> the assignment to
  \<^verbatim>\<open>bound_method.__call__\<close> sets an attribute of the object: a call of the object
  does not consult it (Python looks \<^verbatim>\<open>__call__\<close> up in the class), but
  \<^verbatim>\<open>getattr\<close> returns it, so it is recorded in \<open>call_attr\<close>.
  \<open>LoxFunction_getattr\<close> and \<open>Ctx_getattr\<close> are \<^verbatim>\<open>getattr\<close> on a function object
  and on an environment object, the last branch of \<^verbatim>\<open>Getattr.eval\<close>: the model
  resolves the field \<^verbatim>\<open>ctx\<close> and the stored \<^verbatim>\<open>__call__\<close> of a function and the
  method \<^verbatim>\<open>__getitem__\<close> of an environment, and leaves every other attribute to the
  host. \<open>build_methods\<close> is the loop of
  \<^verbatim>\<open>Class.eval\<close> over the method definitions, which reads the fields \<^verbatim>\<open>name\<close>,
  \<^verbatim>\<open>body\<close> and \<^verbatim>\<open>arg_names\<close> that only a \<^verbatim>\<open>Function\<close> node has.
\<close>

definition alloc_function :: "state \<Rightarrow> lox_function \<Rightarrow> ref \<times> state" where
  "alloc_function s f =
     (next_ref s, s\<lparr>fun_heap := (fun_heap s)(next_ref s := f), next_ref := Suc (next_ref s)\<rparr>)"

definition alloc_class :: "state \<Rightarrow> lox_class \<Rightarrow> ref \<times> state" where
  "alloc_class s c =
     (next_ref s, s\<lparr>class_heap := (class_heap s)(next_ref s := c), next_ref := Suc (next_ref s)\<rparr>)"

definition alloc_instance :: "state \<Rightarrow> lox_instance \<Rightarrow> ref \<times> state" where
  "alloc_instance s i =
     (next_ref s,
      s\<lparr>instance_heap := (instance_heap s)(next_ref s := i), next_ref := Suc (next_ref s)\<rparr>)"

definition alloc_lambda :: "state \<Rightarrow> ref \<Rightarrow> ref \<times> state" where
  "alloc_lambda s i =
     (next_ref s,
      s\<lparr>lambda_heap := (lambda_heap s)(next_ref s := i), next_ref := Suc (next_ref s)\<rparr>)"

definition alloc_super :: "state \<Rightarrow> ref option \<Rightarrow> ref \<times> state" where
  "alloc_super s superclass =
     (next_ref s,
      s\<lparr>super_heap := (super_heap s)(next_ref s := superclass), next_ref := Suc (next_ref s)\<rparr>)"

definition method_not_found :: "string \<Rightarrow> string \<Rightarrow> string" where
  "method_not_found name cls =
     ''M'' @ [CHR 0xC3, CHR 0xA9] @ ''todo '' @ [CHR 0x27] @ name @ [CHR 0x27] @ '' n''
       @ [CHR 0xC3, CHR 0xA3] @ ''o encontrado na classe '' @ [CHR 0x27] @ cls @ [CHR 0x27]"

fun get_method :: "nat \<Rightarrow> state \<Rightarrow> ref \<Rightarrow> string \<Rightarrow> exn + ref" where
  "get_method 0 s c name = Inl RecursionError"
| "get_method (Suc d) s c name =
     (case map_of (c_methods (class_heap s c)) name of
        Some f \<Rightarrow> Inr f
      | None \<Rightarrow> (case c_base (class_heap s c) of
            Some b \<Rightarrow> get_method d s b name
          | None \<Rightarrow> Inl (SemanticError (method_not_found name (c_name (class_heap s c))))))"

text \<open>
  \<open>no_method s c name\<close>: neither class \<open>c\<close> nor any class of its inheritance chain
  has an entry for \<open>name\<close> in its method table.
\<close>

inductive no_method :: "state \<Rightarrow> ref \<Rightarrow> string \<Rightarrow> bool" where
  no_base: "map_of (c_methods (class_heap s c)) name = None \<Longrightarrow> c_base (class_heap s c) = None
      \<Longrightarrow> no_method s c name"
| in_base: "map_of (c_methods (class_heap s c)) name = None \<Longrightarrow> c_base (class_heap s c) = Some b
      \<Longrightarrow> no_method s b name \<Longrightarrow> no_method s c name"

code_pred no_method .

definition bind :: "state \<Rightarrow> ref \<Rightarrow> val \<Rightarrow> ref \<times> state" where
  "bind s f obj =
     (case ctx_child s (f_ctx (fun_heap s f)) of (bound_ctx, s1) \<Rightarrow>
        alloc_function (ctx_var_def s1 bound_ctx ''this'' obj)
          ((fun_heap s f)\<lparr>f_ctx := bound_ctx\<rparr>))"

definition LoxInstance_get :: "nat \<Rightarrow> state \<Rightarrow> ref \<Rightarrow> string \<Rightarrow> (exn + val) \<times> state" where
  "LoxInstance_get d s i name =
     (case map_of (i_fields (instance_heap s i)) name of
        Some v \<Rightarrow> (Inr v, s)
      | None \<Rightarrow>
          if name = ''init'' then
            (case get_method d s (i_lox_class (instance_heap s i)) ''init'' of
               Inr m \<Rightarrow> (case alloc_lambda s i of (l, s1) \<Rightarrow> (Inr (VLambda l), s1))
             | Inl e \<Rightarrow> (Inl AttributeError, s))
          else
            (case get_method d s (i_lox_class (instance_heap s i)) name of
               Inr m \<Rightarrow>
                 (case bind s m (VInstance i) of
                    (b, s1) \<Rightarrow>
                      if c_base (class_heap s1 (i_lox_class (instance_heap s1 i))) \<noteq> None
                      then (Inr (VFunction b), s1\<lparr>call_attr := (call_attr s1)(b := Some i)\<rparr>)
                      else (Inr (VFunction b), s1))
             | Inl e \<Rightarrow> (Inl AttributeError, s)))"

definition LoxFunction_getattr :: "host \<Rightarrow> state \<Rightarrow> ref \<Rightarrow> string \<Rightarrow> exn + val" where
  "LoxFunction_getattr H s f attr =
     (if attr = ''ctx'' then Inr (VCtx (f_ctx (fun_heap s f)))
      else if attr = ''__call__'' then
        (case call_attr s f of
           Some i \<Rightarrow> Inr (VWrapped i f)
         | None \<Rightarrow> host_getattr H s (VFunction f) attr)
      else host_getattr H s (VFunction f) attr)"

definition Ctx_getattr :: "host \<Rightarrow> state \<Rightarrow> ref \<Rightarrow> string \<Rightarrow> exn + val" where
  "Ctx_getattr H s c attr =
     (if attr = ''__getitem__'' then Inr (VGetitem c)
      else host_getattr H s (VCtx c) attr)"

definition LoxInstance_set :: "state \<Rightarrow> ref \<Rightarrow> string \<Rightarrow> val \<Rightarrow> state" where
  "LoxInstance_set s i name v =
     s\<lparr>instance_heap := (instance_heap s)
        (i := (instance_heap s i)\<lparr>i_fields := AList.update name v (i_fields (instance_heap s i))\<rparr>)\<rparr>"

definition dict_zip :: "string list \<Rightarrow> val list \<Rightarrow> (string \<times> val) list" where
  "dict_zip names values = fold (\<lambda>(k, v). AList.update k v) (zip names values) []"

fun build_methods ::
  "state \<Rightarrow> ref \<Rightarrow> stmt list \<Rightarrow> (string \<times> ref) list \<Rightarrow> (exn + (string \<times> ref) list) \<times> state"
where
  "build_methods s method_ctx [] methods = (Inr methods, s)"
| "build_methods s method_ctx (Function n a b # ms) methods =
     (case alloc_function s \<lparr>f_name = n, f_arg_names = a, f_body = b, f_ctx = method_ctx\<rparr> of
        (f, s1) \<Rightarrow> build_methods s1 method_ctx ms (AList.update n f methods))"
| "build_methods s method_ctx (m # ms) methods = (Inl AttributeError, s)"

fun is_RuntimeError :: "exn \<Rightarrow> bool" where
  "is_RuntimeError (RuntimeError msg) = True"
| "is_RuntimeError RecursionError = True"
| "is_RuntimeError e = False"

section \<open>Evaluator\<close>

text \<open>
  The evaluator is recursive on the native stack of the host: every call of an
  \<^verbatim>\<open>eval\<close> method, of \<^verbatim>\<open>__call__\<close>, of \<^verbatim>\<open>LoxInstance.init\<close> and of
  \<^verbatim>\<open>wrapped_call\<close> is a frame, and
  Python raises \<^verbatim>\<open>RecursionError\<close> where the nesting exceeds its limit. \<open>frames H d\<close>
  is the evaluator with \<open>d\<close> frames left: with none left every call fails, and with
  \<open>Suc d\<close> left each method runs its body, in which the nested calls have \<open>d\<close> left
  (the record \<open>E\<close> in \<open>Expr_eval\<close>, \<open>Stmt_eval\<close> and the four calls). Calls that
  return without entering the evaluator again (the operators, the environment) are not
  counted. Every evaluation starts from a store and returns the store it leaves, also when
  it fails.
\<close>

record evaluator =
  ev_expr :: "state \<Rightarrow> ref \<Rightarrow> expr \<Rightarrow> (exn + val) \<times> state"
  ev_stmt :: "state \<Rightarrow> ref \<Rightarrow> stmt \<Rightarrow> (exn + unit) \<times> state"
  ev_function_call :: "state \<Rightarrow> ref \<Rightarrow> val list \<Rightarrow> (exn + val) \<times> state"
  ev_class_call :: "state \<Rightarrow> ref \<Rightarrow> val list \<Rightarrow> (exn + val) \<times> state"
  ev_instance_init :: "state \<Rightarrow> ref \<Rightarrow> val list \<Rightarrow> (exn + val) \<times> state"
  ev_wrapped_call :: "state \<Rightarrow> ref \<Rightarrow> ref \<Rightarrow> val list \<Rightarrow> (exn + val) \<times> state"
  ev_depth :: nat

primrec eval_params ::
  "(state \<Rightarrow> ref \<Rightarrow> expr \<Rightarrow> (exn + val) \<times> state) \<Rightarrow> state \<Rightarrow> ref \<Rightarrow> expr list \<Rightarrow> (exn + val list) \<times> state"
where
  "eval_params ev s ctx [] = (Inr [], s)"
| "eval_params ev s ctx (e # es) =
     (case ev s ctx e of
        (Inl x, s1) \<Rightarrow> (Inl x, s1)
      | (Inr v, s1) \<Rightarrow>
          (case eval_params ev s1 ctx es of
             (Inl x, s2) \<Rightarrow> (Inl x, s2)
           | (Inr vs, s2) \<Rightarrow> (Inr (v # vs), s2)))"

primrec eval_stmts ::
  "(state \<Rightarrow> ref \<Rightarrow> stmt \<Rightarrow> (exn + unit) \<times> state) \<Rightarrow> state \<Rightarrow> ref \<Rightarrow> stmt list \<Rightarrow> (exn + unit) \<times> state"
where
  "eval_stmts ev s ctx [] = (Inr (), s)"
| "eval_stmts ev s ctx (st # rest) =
     (case ev s ctx st of
        (Inl x, s1) \<Rightarrow> (Inl x, s1)
      | (Inr u, s1) \<Rightarrow> eval_stmts ev s1 ctx rest)"

fun Expr_eval :: "host \<Rightarrow> evaluator \<Rightarrow> state \<Rightarrow> ref \<Rightarrow> expr \<Rightarrow> (exn + val) \<times> state" where
  "Expr_eval H E s ctx (BinOp left right op) =
     (case ev_expr E s ctx left of
        (Inl x, s1) \<Rightarrow> (Inl x, s1)
      | (Inr left_value, s1) \<Rightarrow>
          (case ev_expr E s1 ctx right of
             (Inl x, s2) \<Rightarrow> (Inl x, s2)
           | (Inr right_value, s2) \<Rightarrow> (apply_binop H s2 op left_value right_value, s2)))"
| "Expr_eval H E s ctx (Var name) =
     (case ctx_lookup s ctx name of
        Some v \<Rightarrow> (Inr v, s)
      | None \<Rightarrow> (Inl NameError, s))"
| "Expr_eval H E s ctx (Literal v) = (Inr v, s)"
| "Expr_eval H E s ctx (And left right) =
     (case ev_expr E s ctx left of
        (Inl x, s1) \<Rightarrow> (Inl x, s1)
      | (Inr left_value, s1) \<Rightarrow>
          if \<not> is_lox_true left_value then (Inr left_value, s1)
          else ev_expr E s1 ctx right)"
| "Expr_eval H E s ctx (Or left right) =
     (case ev_expr E s ctx left of
        (Inl x, s1) \<Rightarrow> (Inl x, s1)
      | (Inr left_value, s1) \<Rightarrow>
          if is_lox_true left_value then (Inr left_value, s1)
          else ev_expr E s1 ctx right)"
| "Expr_eval H E s ctx (UnaryOp op e) =
     (case ev_expr E s ctx e of
        (Inl x, s1) \<Rightarrow> (Inl x, s1)
      | (Inr v, s1) \<Rightarrow> (apply_unop op v, s1))"
| "Expr_eval H E s ctx (Call callee params) =
     (case ev_expr E s ctx callee of
        (Inl x, s1) \<Rightarrow> (Inl x, s1)
      | (Inr func, s1) \<Rightarrow>
          (case eval_params (ev_expr E) s1 ctx params of
             (Inl x, s2) \<Rightarrow> (Inl x, s2)
           | (Inr args, s2) \<Rightarrow>
               (case func of
                  VFunction f \<Rightarrow> ev_function_call E s2 f args
                | VClass c \<Rightarrow> ev_class_call E s2 c args
                | VLambda l \<Rightarrow> ev_instance_init E s2 (lambda_heap s2 l) args
                | VWrapped i b \<Rightarrow> ev_wrapped_call E s2 i b args
                | VGetitem c \<Rightarrow> (Ctx_getitem H s2 c args, s2)
                | VHost h \<Rightarrow> host_call H s2 h args
                | _ \<Rightarrow> (Inl TypeError, s2))))"
| "Expr_eval H E s ctx This =
     (case ctx_lookup s ctx ''this'' of
        Some v \<Rightarrow> (Inr v, s)
      | None \<Rightarrow> (Inl NameError, s))"
| "Expr_eval H E s ctx (Super method_name) =
     (case ctx_lookup s ctx ''super'' of
        None \<Rightarrow> (Inl NameError, s)
      | Some super_class \<Rightarrow>
          (case ctx_lookup s ctx ''this'' of
             None \<Rightarrow> (Inl NameError, s)
           | Some this_instance \<Rightarrow>
               (case super_class of
                  VClass c \<Rightarrow>
                    (case get_method (ev_depth E) s c method_name of
                       Inl x \<Rightarrow> (Inl x, s)
                     | Inr m \<Rightarrow>
                         (case bind s m this_instance of (b, s1) \<Rightarrow> (Inr (VFunction b), s1)))
                | _ \<Rightarrow> (Inl AttributeError, s))))"
| "Expr_eval H E s ctx (Assign name e) =
     (case ev_expr E s ctx e of
        (Inl x, s1) \<Rightarrow> (Inl x, s1)
      | (Inr v, s1) \<Rightarrow>
          (case ctx_assign s1 ctx name v of
             (Inl x, s2) \<Rightarrow> (Inl x, s2)
           | (Inr u, s2) \<Rightarrow> (Inr v, s2)))"
| "Expr_eval H E s ctx (Getattr obj attr) =
     (case ev_expr E s ctx obj of
        (Inl x, s1) \<Rightarrow> (Inl x, s1)
      | (Inr base, s1) \<Rightarrow>
          (case base of
             VInstance i \<Rightarrow> LoxInstance_get (ev_depth E) s1 i attr
           | VSuper r \<Rightarrow>
               (case super_heap s1 r of
                  None \<Rightarrow> (Inl AttributeError, s1)
                | Some superclass \<Rightarrow>
                    (case get_method (ev_depth E) s1 superclass attr of
                       Inl x \<Rightarrow> (Inl x, s1)
                     | Inr m \<Rightarrow> (Inr (VFunction m), s1)))
           | VFunction f \<Rightarrow> (LoxFunction_getattr H s1 f attr, s1)
           | VCtx c \<Rightarrow> (Ctx_getattr H s1 c attr, s1)
           | _ \<Rightarrow> (host_getattr H s1 base attr, s1)))"
| "Expr_eval H E s ctx (Setattr obj attr e) =
     (case ev_expr E s ctx obj of
        (Inl x, s1) \<Rightarrow> (Inl x, s1)
      | (Inr obj_value, s1) \<Rightarrow>
          (case ev_expr E s1 ctx e of
             (Inl x, s2) \<Rightarrow> (Inl x, s2)
           | (Inr v, s2) \<Rightarrow>
               (case obj_value of
                  VInstance i \<Rightarrow> (Inr v, LoxInstance_set s2 i attr v)
                | VClass c \<Rightarrow> (Inl (RuntimeError ''Only instances have fields.''), s2)
                | VFunction f \<Rightarrow> (Inl (RuntimeError ''Only instances have fields.''), s2)
                | _ \<Rightarrow>
                    (case host_setattr H s2 obj_value attr v of
                       (Inl x, s3) \<Rightarrow> (Inl x, s3)
                     | (Inr u, s3) \<Rightarrow> (Inr v, s3)))))"

text \<open>
  The first part of \<^verbatim>\<open>Class.eval\<close>: the \<^verbatim>\<open>try\<close> block around the superclass
  expression, with its two handlers, and then the scope of the methods.
\<close>

definition eval_superclass ::
  "evaluator \<Rightarrow> state \<Rightarrow> ref \<Rightarrow> expr option \<Rightarrow> (exn + ref option) \<times> state"
where
  "eval_superclass E s ctx superclass_expr =
     (case superclass_expr of
        None \<Rightarrow> (Inr None, s)
      | Some e \<Rightarrow>
          (case ev_expr E s ctx e of
             (Inr v, s1) \<Rightarrow>
               (case v of
                  VClass c \<Rightarrow> (Inr (Some c), s1)
                | _ \<Rightarrow> (Inl (RuntimeError ''Superclass must be a class.''), s1))
           | (Inl x, s1) \<Rightarrow> if is_RuntimeError x then (Inl x, s1) else (Inr None, s1)))"

definition method_scope :: "state \<Rightarrow> ref \<Rightarrow> ref option \<Rightarrow> ref \<times> state" where
  "method_scope s ctx superclass =
     (case superclass of
        None \<Rightarrow> (ctx, s)
      | Some c \<Rightarrow>
          (case ctx_child s ctx of (method_ctx, s1) \<Rightarrow>
             (method_ctx, ctx_var_def s1 method_ctx ''super'' (VClass c))))"

fun Stmt_eval :: "host \<Rightarrow> evaluator \<Rightarrow> state \<Rightarrow> ref \<Rightarrow> stmt \<Rightarrow> (exn + unit) \<times> state" where
  "Stmt_eval H E s ctx (Print e) =
     (case ev_expr E s ctx e of
        (Inl x, s1) \<Rightarrow> (Inl x, s1)
      | (Inr v, s1) \<Rightarrow> (Inr (), s1\<lparr>stdout := stdout s1 @ [show_value H s1 v]\<rparr>))"
| "Stmt_eval H E s ctx (Return e) =
     (case ev_expr E s ctx e of
        (Inl x, s1) \<Rightarrow> (Inl x, s1)
      | (Inr v, s1) \<Rightarrow> (Inl (LoxReturn v), s1))"
| "Stmt_eval H E s ctx (VarDef name e) =
     (case ev_expr E s ctx e of
        (Inl x, s1) \<Rightarrow> (Inl x, s1)
      | (Inr v, s1) \<Rightarrow> (Inr (), ctx_var_def s1 ctx name v))"
| "Stmt_eval H E s ctx (If_stmt cond then_branch orelse) =
     (case ev_expr E s ctx cond of
        (Inl x, s1) \<Rightarrow> (Inl x, s1)
      | (Inr c, s1) \<Rightarrow>
          if is_lox_true c then ev_stmt E s1 ctx then_branch
          else ev_stmt E s1 ctx orelse)"
| "Stmt_eval H E s ctx (While cond body) =
     (case ev_expr E s ctx cond of
        (Inl x, s1) \<Rightarrow> (Inl x, s1)
      | (Inr c, s1) \<Rightarrow>
          if is_lox_true c then
            (case ev_stmt E s1 ctx body of
               (Inl x, s2) \<Rightarrow> (Inl x, s2)
             | (Inr u, s2) \<Rightarrow> ev_stmt E s2 ctx (While cond body))
          else (Inr (), s1))"
| "Stmt_eval H E s ctx (Block stmts) =
     (case ctx_child s ctx of (child_ctx, s1) \<Rightarrow> eval_stmts (ev_stmt E) s1 child_ctx stmts)"
| "Stmt_eval H E s ctx (Function name arg_names body) =
     (case alloc_function s \<lparr>f_name = name, f_arg_names = arg_names, f_body = body, f_ctx = ctx\<rparr> of
        (func, s1) \<Rightarrow> (Inr (), ctx_var_def s1 ctx name (VFunction func)))"
| "Stmt_eval H E s ctx (Class name superclass_expr method_defs) =
     (case eval_superclass E s ctx superclass_expr of
        (Inl x, s1) \<Rightarrow> (Inl x, s1)
      | (Inr superclass, s1) \<Rightarrow>
          (case method_scope s1 ctx superclass of
             (method_ctx, s2) \<Rightarrow>
               (case build_methods s2 method_ctx method_defs [] of
                  (Inl x, s3) \<Rightarrow> (Inl x, s3)
                | (Inr methods, s3) \<Rightarrow>
                    (case alloc_class s3 \<lparr>c_name = name, c_methods = methods, c_base = superclass\<rparr> of
                       (lox_class, s4) \<Rightarrow> (Inr (), ctx_var_def s4 ctx name (VClass lox_class))))))"
| "Stmt_eval H E s ctx (ExprStmt e) =
     (case Expr_eval H E s ctx e of
        (Inl x, s1) \<Rightarrow> (Inl x, s1)
      | (Inr v, s1) \<Rightarrow> (Inr (), s1))"

text \<open>
  \<^verbatim>\<open>LoxFunction.__call__\<close>, \<^verbatim>\<open>LoxClass.__call__\<close> and \<^verbatim>\<open>LoxInstance.init\<close>. The
  handlers of the last two are bare \<^verbatim>\<open>except:\<close> clauses and catch every exception.
  \<open>wrapped_call E s i bound_method args\<close> is the closure \<^verbatim>\<open>wrapped_call\<close> of
  \<^verbatim>\<open>LoxInstance.get\<close>, for instance \<open>i\<close> (\<^verbatim>\<open>self\<close>) and its bound method: it builds
  a \<^verbatim>\<open>LoxSuper\<close> for the base of the class of the instance, binds it to \<open>super\<close> in a
  child of the environment of the bound method, makes that child the environment of the
  bound method for the time of the call (\<^verbatim>\<open>original_call\<close> is the method
  \<^verbatim>\<open>__call__\<close> of the class, bound to the bound method), and restores the environment
  whether the call returns or fails.
\<close>

definition LoxFunction_call ::
  "evaluator \<Rightarrow> state \<Rightarrow> ref \<Rightarrow> val list \<Rightarrow> (exn + val) \<times> state"
where
  "LoxFunction_call E s f values =
     (if length (f_arg_names (fun_heap s f)) \<noteq> length values then (Inl TypeError, s)
      else
        (case ctx_new s (dict_zip (f_arg_names (fun_heap s f)) values) (Some (f_ctx (fun_heap s f))) of
           (ctx, s1) \<Rightarrow>
             (case eval_stmts (ev_stmt E) s1 ctx (f_body (fun_heap s f)) of
                (Inl x, s2) \<Rightarrow> (case x of LoxReturn v \<Rightarrow> (Inr v, s2) | _ \<Rightarrow> (Inl x, s2))
              | (Inr u, s2) \<Rightarrow> (Inr VNone, s2))))"

definition LoxClass_call ::
  "evaluator \<Rightarrow> state \<Rightarrow> ref \<Rightarrow> val list \<Rightarrow> (exn + val) \<times> state"
where
  "LoxClass_call E s c args =
     (case alloc_instance s \<lparr>i_lox_class = c, i_fields = []\<rparr> of
        (instance, s1) \<Rightarrow>
          (case get_method (ev_depth E) s1 c ''init'' of
             Inl x \<Rightarrow> if args \<noteq> [] then (Inl TypeError, s1) else (Inr (VInstance instance), s1)
           | Inr init_method \<Rightarrow>
               (case bind s1 init_method (VInstance instance) of
                  (bound_init, s2) \<Rightarrow>
                    (case ev_function_call E s2 bound_init args of
                       (Inl x, s3) \<Rightarrow>
                         if args \<noteq> [] then (Inl TypeError, s3) else (Inr (VInstance instance), s3)
                     | (Inr v, s3) \<Rightarrow> (Inr (VInstance instance), s3)))))"

definition LoxInstance_init ::
  "evaluator \<Rightarrow> state \<Rightarrow> ref \<Rightarrow> val list \<Rightarrow> (exn + val) \<times> state"
where
  "LoxInstance_init E s i args =
     (case get_method (ev_depth E) s (i_lox_class (instance_heap s i)) ''init'' of
        Inl x \<Rightarrow> (Inr (VInstance i), s)
      | Inr init_method \<Rightarrow>
          (case bind s init_method (VInstance i) of
             (bound_init, s1) \<Rightarrow>
               (case ev_function_call E s1 bound_init args of
                  (Inl x, s2) \<Rightarrow> (Inr (VInstance i), s2)
                | (Inr v, s2) \<Rightarrow> (Inr (VInstance i), s2))))"

definition wrapped_call ::
  "evaluator \<Rightarrow> state \<Rightarrow> ref \<Rightarrow> ref \<Rightarrow> val list \<Rightarrow> (exn + val) \<times> state"
where
  "wrapped_call E s i bound_method args =
     (case alloc_super s (c_base (class_heap s (i_lox_class (instance_heap s i)))) of
        (super_obj, s1) \<Rightarrow>
          (case ctx_child s1 (f_ctx (fun_heap s1 bound_method)) of
             (new_ctx, s2) \<Rightarrow>
               (case ev_function_call E
                       ((ctx_var_def s2 new_ctx ''super'' (VSuper super_obj))
                          \<lparr>fun_heap := (fun_heap s2)
                             (bound_method := (fun_heap s2 bound_method)\<lparr>f_ctx := new_ctx\<rparr>)\<rparr>)
                       bound_method args of
                  (r, s3) \<Rightarrow>
                    (r, s3\<lparr>fun_heap := (fun_heap s3)
                            (bound_method := (fun_heap s3 bound_method)
                               \<lparr>f_ctx := f_ctx (fun_heap s1 bound_method)\<rparr>)\<rparr>))))"

primrec frames :: "host \<Rightarrow> nat \<Rightarrow> evaluator" where
  "frames H 0 =
     \<lparr>ev_expr = (\<lambda>s ctx e. (Inl RecursionError, s)),
      ev_stmt = (\<lambda>s ctx st. (Inl RecursionError, s)),
      ev_function_call = (\<lambda>s f values. (Inl RecursionError, s)),
      ev_class_call = (\<lambda>s c args. (Inl RecursionError, s)),
      ev_instance_init = (\<lambda>s i args. (Inl RecursionError, s)),
      ev_wrapped_call = (\<lambda>s i b args. (Inl RecursionError, s)),
      ev_depth = 0\<rparr>"
| "frames H (Suc d) =
     (let E = frames H d
      in \<lparr>ev_expr = Expr_eval H E,
          ev_stmt = Stmt_eval H E,
          ev_function_call = LoxFunction_call E,
          ev_class_call = LoxClass_call E,
          ev_instance_init = LoxInstance_init E,
          ev_wrapped_call = wrapped_call E,
          ev_depth = Suc d\<rparr>)"

definition eval_expr :: "host \<Rightarrow> nat \<Rightarrow> state \<Rightarrow> ref \<Rightarrow> expr \<Rightarrow> (exn + val) \<times> state" where
  "eval_expr H d = ev_expr (frames H d)"

definition eval_stmt :: "host \<Rightarrow> nat \<Rightarrow> state \<Rightarrow> ref \<Rightarrow> stmt \<Rightarrow> (exn + unit) \<times> state" where
  "eval_stmt H d = ev_stmt (frames H d)"

definition Program_eval :: "host \<Rightarrow> nat \<Rightarrow> state \<Rightarrow> ref \<Rightarrow> program \<Rightarrow> (exn + unit) \<times> state" where
  "Program_eval H d s ctx p =
     (case d of
        0 \<Rightarrow> (Inl RecursionError, s)
      | Suc d' \<Rightarrow> (case p of Program stmts \<Rightarrow> eval_stmts (eval_stmt H d') s ctx stmts))"

text \<open>
  A host with no opaque objects, and the store of a fresh root environment (frame 0).
  The fields of \<open>no_host\<close> stand for what the evaluations below never ask of the host:
  none of them prints a float that is not an integer, reaches an opaque object or
  compares two distinct objects with \<^verbatim>\<open>==\<close>. Its \<open>dataclass_eq\<close> in particular is
  not the comparison that \<^verbatim>\<open>@dataclass\<close> generates, which answers \<^verbatim>\<open>True\<close> on two
  distinct objects with equal fields; the properties of equality are stated for every
  host \<open>H\<close>, and with \<open>no_host\<close> only two numbers, an object and itself, two
  functions, and two values of different types are compared, where \<open>dataclass_eq\<close> is
  not consulted.
\<close>

definition no_host :: host where
  "no_host =
     \<lparr>float_repr = (\<lambda>q. []),
      dataclass_eq = (\<lambda>s x y. False),
      host_eq = (\<lambda>a b. a = b),
      host_show = (\<lambda>s h. []),
      str_object = (\<lambda>s v. []),
      getitem_other = (\<lambda>s c args. Inl TypeError),
      host_getattr = (\<lambda>s v name. Inl AttributeError),
      host_setattr = (\<lambda>s v name x. (Inl AttributeError, s)),
      host_call = (\<lambda>s h args. (Inl TypeError, s))\<rparr>"

definition init_state :: state where
  "init_state =
     \<lparr>fun_heap = (\<lambda>r. \<lparr>f_name = [], f_arg_names = [], f_body = [], f_ctx = 0\<rparr>),
      class_heap = (\<lambda>r. \<lparr>c_name = [], c_methods = [], c_base = None\<rparr>),
      instance_heap = (\<lambda>r. \<lparr>i_lox_class = 0, i_fields = []\<rparr>),
      super_heap = (\<lambda>r. None),
      call_attr = (\<lambda>r. None),
      lambda_heap = (\<lambda>r. 0),
      frame_heap = (\<lambda>r. \<lparr>vars = [], parent = None\<rparr>),
      next_ref = 1,
      stdout = []\<rparr>"

section \<open>Static validation\<close>

text \<open>
  \<^verbatim>\<open>VarDef.validate_self\<close> and its helper. The cursor of the source gives the hook the
  ancestors of the node, nearest first; they are the third argument here.
\<close>

definition RESERVED_WORDS :: "string list" where
  "RESERVED_WORDS =
     [''and'', ''class'', ''else'', ''false'', ''for'', ''fun'', ''if'', ''nil'',
      ''or'', ''print'', ''return'', ''super'', ''this'', ''true'', ''var'', ''while'']"

datatype node = Node_Program program | Node_Stmt stmt | Node_Expr expr

fun uses_variable_in_expression :: "expr \<Rightarrow> string \<Rightarrow> bool" where
  "uses_variable_in_expression (Var name) var_name = (name = var_name)"
| "uses_variable_in_expression (BinOp left right op) var_name =
     (uses_variable_in_expression left var_name \<or> uses_variable_in_expression right var_name)"
| "uses_variable_in_expression (UnaryOp op e) var_name = uses_variable_in_expression e var_name"
| "uses_variable_in_expression (Call callee params) var_name =
     (if uses_variable_in_expression callee var_name then True
      else if list_ex (\<lambda>param. uses_variable_in_expression param var_name) params then True
      else False)"
| "uses_variable_in_expression (Getattr obj attr) var_name = uses_variable_in_expression obj var_name"
| "uses_variable_in_expression (Setattr obj attr e) var_name =
     (uses_variable_in_expression obj var_name \<or> uses_variable_in_expression e var_name)"
| "uses_variable_in_expression (Assign name e) var_name = uses_variable_in_expression e var_name"
| "uses_variable_in_expression (Literal v) var_name = False"
| "uses_variable_in_expression This var_name = False"
| "uses_variable_in_expression (Super method_name) var_name = False"
| "uses_variable_in_expression (And left right) var_name = False"
| "uses_variable_in_expression (Or left right) var_name = False"

definition own_initializer_msg :: string where
  "own_initializer_msg = ''Can'' @ [CHR 0x27] @ ''t read local variable in its own initializer.''"

fun scan_parents :: "node list \<Rightarrow> exn + unit" where
  "scan_parents [] = Inr ()"
| "scan_parents (Node_Stmt (Block stmts) # ps) = Inl (SemanticError own_initializer_msg)"
| "scan_parents (Node_Program p # ps) = Inr ()"
| "scan_parents (n # ps) = scan_parents ps"

definition VarDef_validate_self :: "string \<Rightarrow> expr \<Rightarrow> node list \<Rightarrow> exn + unit" where
  "VarDef_validate_self name e parents =
     (if name \<in> set RESERVED_WORDS then Inl (SemanticError ''Expect variable name.'')
      else if uses_variable_in_expression e name then scan_parents parents
      else Inr ())"

section \<open>Closed forms of the calls and predicates of the specification\<close>

text \<open>
  The evaluator and the calls under a stack limit of \<open>d\<close> frames, and the variants of the
  value model of the specification: nil, boolean, number, string, function, class,
  instance and superclass proxy. \<open>mixed_overflow\<close> holds of an integer and a float, in
  either order, when the integer does not convert to a float.
\<close>

definition call_function :: "host \<Rightarrow> nat \<Rightarrow> state \<Rightarrow> ref \<Rightarrow> val list \<Rightarrow> (exn + val) \<times> state" where
  "call_function H d = ev_function_call (frames H d)"

definition call_class :: "host \<Rightarrow> nat \<Rightarrow> state \<Rightarrow> ref \<Rightarrow> val list \<Rightarrow> (exn + val) \<times> state" where
  "call_class H d = ev_class_call (frames H d)"

definition call_init :: "host \<Rightarrow> nat \<Rightarrow> state \<Rightarrow> ref \<Rightarrow> val list \<Rightarrow> (exn + val) \<times> state" where
  "call_init H d = ev_instance_init (frames H d)"

definition call_wrapped ::
  "host \<Rightarrow> nat \<Rightarrow> state \<Rightarrow> ref \<Rightarrow> ref \<Rightarrow> val list \<Rightarrow> (exn + val) \<times> state"
where
  "call_wrapped H d = ev_wrapped_call (frames H d)"

definition is_number :: "val \<Rightarrow> bool" where
  "is_number v = (case v of VInt n \<Rightarrow> True | VFloat f \<Rightarrow> True | _ \<Rightarrow> False)"

definition is_string :: "val \<Rightarrow> bool" where
  "is_string v = (case v of VStr t \<Rightarrow> True | _ \<Rightarrow> False)"

definition is_boolean :: "val \<Rightarrow> bool" where
  "is_boolean v = (case v of VBool b \<Rightarrow> True | _ \<Rightarrow> False)"

definition is_zero :: "val \<Rightarrow> bool" where
  "is_zero v = (case v of VInt n \<Rightarrow> n = 0 | VFloat f \<Rightarrow> f = FFin 0 \<or> f = FNegZero | _ \<Rightarrow> False)"

datatype variant =
    Variant_Nil | Variant_Bool | Variant_Number | Variant_String | Variant_Function
  | Variant_Class | Variant_Instance | Variant_SuperProxy | Variant_Host

fun variant_of :: "val \<Rightarrow> variant" where
  "variant_of VNone = Variant_Nil"
| "variant_of (VBool b) = Variant_Bool"
| "variant_of (VInt n) = Variant_Number"
| "variant_of (VFloat f) = Variant_Number"
| "variant_of (VStr t) = Variant_String"
| "variant_of (VFunction r) = Variant_Function"
| "variant_of (VClass r) = Variant_Class"
| "variant_of (VInstance r) = Variant_Instance"
| "variant_of (VSuper r) = Variant_SuperProxy"
| "variant_of (VLambda r) = Variant_Host"
| "variant_of (VWrapped i b) = Variant_Host"
| "variant_of (VCtx c) = Variant_Host"
| "variant_of (VGetitem c) = Variant_Host"
| "variant_of (VHost h) = Variant_Host"

definition mixed_overflow :: "val \<Rightarrow> val \<Rightarrow> bool" where
  "mixed_overflow left right =
     (case left of
        VInt n \<Rightarrow> (case right of VFloat f \<Rightarrow> int_to_float n = Inl OverflowError | _ \<Rightarrow> False)
      | VFloat f \<Rightarrow> (case right of VInt n \<Rightarrow> int_to_float n = Inl OverflowError | _ \<Rightarrow> False)
      | _ \<Rightarrow> False)"

section \<open>Example programs and stores\<close>

text \<open>
  \<open>counting_loop n\<close> is \<^verbatim>\<open>while (i < n) i = i + 1;\<close> and \<open>counter_state k\<close> the root
  store in which \<open>i\<close> is \<open>k\<close>. \<open>init_class_state\<close> is the store after the declaration
  \<^verbatim>\<open>class C { init(a) { return 42; } }\<close>, followed by the stores that the invocation
  \<^verbatim>\<open>C(7)\<close> goes through; \<open>empty_class_state\<close> is the store after \<^verbatim>\<open>class D {}\<close>.

  \<open>super_proxy_program\<close> is the program

  \<^verbatim>\<open>class A { f() { return this; } }\<close>

  \<^verbatim>\<open>class B < A {\<close>

  \<^verbatim>\<open>  g() { print bg.ctx.__getitem__("super"); return bg.ctx.__getitem__("super").f; }\<close>

  \<^verbatim>\<open>  k() { return super.f; }\<close>

  \<^verbatim>\<open>}\<close>

  \<^verbatim>\<open>var b = B(); print b.k()(); var bg = b.g; var m = bg.__call__(); print m; print m();\<close>

  as the transformer builds it: \<^verbatim>\<open>atr\<close> makes \<^verbatim>\<open>Getattr(obj, name)\<close> of every
  attribute access and \<^verbatim>\<open>super_expr\<close> makes \<^verbatim>\<open>Super(name)\<close> of
  \<^verbatim>\<open>super.name\<close>. \<open>super_proxy_run d\<close> is its evaluation in a fresh root environment
  with \<open>d + 11\<close> frames.
\<close>

definition counting_loop :: "int \<Rightarrow> stmt" where
  "counting_loop n = While (BinOp (Var ''i'') (Literal (VInt n)) Op_lt)
     (ExprStmt (Assign ''i'' (BinOp (Var ''i'') (Literal (VInt 1)) Op_add)))"

definition counter_state :: "int \<Rightarrow> state" where
  "counter_state k = ctx_var_def init_state 0 ''i'' (VInt k)"

definition init_class_state :: state where
  "init_class_state =
     snd (eval_stmt no_host 2 init_state 0
       (Class ''C'' None [Function ''init'' [''a''] [Return (Literal (VInt 42))]]))"

definition super_proxy_program :: program where
  "super_proxy_program = Program
     [Class ''A'' None [Function ''f'' [] [Return This]],
      Class ''B'' (Some (Var ''A''))
        [Function ''g'' []
           [Print
              (Call (Getattr (Getattr (Var ''bg'') ''ctx'') ''__getitem__'') [Literal (VStr ''super'')]),
            Return (Getattr
              (Call (Getattr (Getattr (Var ''bg'') ''ctx'') ''__getitem__'') [Literal (VStr ''super'')])
              ''f'')],
         Function ''k'' [] [Return (Super ''f'')]],
      VarDef ''b'' (Call (Var ''B'') []),
      Print (Call (Call (Getattr (Var ''b'') ''k'') []) []),
      VarDef ''bg'' (Getattr (Var ''b'') ''g''),
      VarDef ''m'' (Call (Getattr (Var ''bg'') ''__call__'') []),
      Print (Var ''m''),
      Print (Call (Var ''m'') [])]"

definition super_proxy_run :: "nat \<Rightarrow> (exn + unit) \<times> state" where
  "super_proxy_run d = Program_eval no_host (d + 11) init_state 0 super_proxy_program"

definition init_call_store1 :: state where
  "init_call_store1 = snd (alloc_instance init_class_state \<lparr>i_lox_class = 2, i_fields = []\<rparr>)"

definition init_call_store2 :: state where
  "init_call_store2 = snd (bind init_call_store1 1 (VInstance 3))"

definition init_call_store3 :: state where
  "init_call_store3 = snd (call_function no_host 3 init_call_store2 5 [VInt 7])"

definition empty_class_state :: state where
  "empty_class_state = snd (eval_stmt no_host 2 init_state 0 (Class ''D'' None []))"

section \<open>Properties\<close>

lemma ev_frames [simp]:
  "ev_expr (frames H d) = eval_expr H d"
  "ev_stmt (frames H d) = eval_stmt H d"
  "ev_function_call (frames H d) = call_function H d"
  "ev_class_call (frames H d) = call_class H d"
  "ev_instance_init (frames H d) = call_init H d"
  "ev_wrapped_call (frames H d) = call_wrapped H d"
  by (simp_all add: eval_expr_def eval_stmt_def call_function_def call_class_def call_init_def
        call_wrapped_def)

lemma ev_depth_frames [simp]: "ev_depth (frames H d) = d"
  by (cases d) (simp_all add: Let_def)

declare frames.simps [simp del]

lemma eval_expr_0 [simp]: "eval_expr H 0 s ctx e = (Inl RecursionError, s)"
  by (simp add: eval_expr_def frames.simps)

lemma eval_stmt_0 [simp]: "eval_stmt H 0 s ctx st = (Inl RecursionError, s)"
  by (simp add: eval_stmt_def frames.simps)

lemma eval_expr_Suc: "eval_expr H (Suc d) s ctx e = Expr_eval H (frames H d) s ctx e"
  by (simp add: eval_expr_def frames.simps Let_def)

lemma eval_stmt_Suc: "eval_stmt H (Suc d) s ctx st = Stmt_eval H (frames H d) s ctx st"
  by (simp add: eval_stmt_def frames.simps Let_def)

lemma call_function_0 [simp]: "call_function H 0 s f vs = (Inl RecursionError, s)"
  by (simp add: call_function_def frames.simps)

lemma call_function_Suc: "call_function H (Suc d) s f vs = LoxFunction_call (frames H d) s f vs"
  by (simp add: call_function_def frames.simps Let_def)

lemma call_class_0 [simp]: "call_class H 0 s c vs = (Inl RecursionError, s)"
  by (simp add: call_class_def frames.simps)

lemma call_class_Suc: "call_class H (Suc d) s c vs = LoxClass_call (frames H d) s c vs"
  by (simp add: call_class_def frames.simps Let_def)

lemma call_init_0 [simp]: "call_init H 0 s i vs = (Inl RecursionError, s)"
  by (simp add: call_init_def frames.simps)

lemma call_init_Suc: "call_init H (Suc d) s i vs = LoxInstance_init (frames H d) s i vs"
  by (simp add: call_init_def frames.simps Let_def)

lemma call_wrapped_0 [simp]: "call_wrapped H 0 s i b vs = (Inl RecursionError, s)"
  by (simp add: call_wrapped_def frames.simps)

lemma call_wrapped_Suc: "call_wrapped H (Suc d) s i b vs = wrapped_call (frames H d) s i b vs"
  by (simp add: call_wrapped_def frames.simps Let_def)

lemmas eval_Suc = eval_expr_Suc eval_stmt_Suc call_function_Suc call_class_Suc call_init_Suc
  call_wrapped_Suc

lemma eval_stmt_While:
  "eval_stmt H (Suc d) s ctx (While cond body) =
     (case eval_expr H d s ctx cond of
        (Inl x, s1) \<Rightarrow> (Inl x, s1)
      | (Inr c, s1) \<Rightarrow>
          if is_lox_true c then
            (case eval_stmt H d s1 ctx body of
               (Inl x, s2) \<Rightarrow> (Inl x, s2)
             | (Inr u, s2) \<Rightarrow> eval_stmt H d s2 ctx (While cond body))
          else (Inr (), s1))"
  unfolding eval_stmt_Suc Stmt_eval.simps ev_frames by (rule refl)

lemma is_number_as_num: "is_number v \<Longrightarrow> \<exists>a. as_num v = Some a"
  by (cases v) (simp_all add: is_number_def)

lemma is_zero_eq_num: "is_zero v \<Longrightarrow> as_num v = Some b \<Longrightarrow> py_eq_num b (NInt 0)"
  by (cases v) (auto simp: is_zero_def py_eq_num_def)

lemma show_value_nan: "show_value H s (VFloat FNaN) = ''nan''"
  by (simp add: show_value_def)

lemma show_value_neg_zero: "show_value H s (VFloat FNegZero) = ''-0''"
  by (simp add: show_value_def)

subsection \<open>Division by zero\<close>

text \<open>
  C2. Division never fails on a zero divisor: for every number \<open>left\<close> and every
  zero-valued number \<open>right\<close> (the integer \<open>0\<close>, \<open>0.0\<close> or \<open>-0.0\<close>), \<open>lox_truediv\<close>
  returns NaN; NaN is shown as \<open>nan\<close>; and the program \<open>print 1/0;\<close> completes normally
  and writes the single line \<open>nan\<close>, under every stack limit of at least four frames.
\<close>

theorem division_by_zero_is_nan:
  "(is_number left \<and> is_number right \<and> is_zero right \<longrightarrow> lox_truediv left right = Inr (VFloat FNaN))
   \<and> show_value H s (VFloat FNaN) = ''nan''
   \<and> Program_eval H (Suc (Suc (Suc (Suc d)))) s ctx
        (Program [Print (BinOp (Literal (VInt 1)) (Literal (VInt 0)) Op_truediv)])
      = (Inr (), s\<lparr>stdout := stdout s @ [''nan'']\<rparr>)"
proof (intro conjI impI)
  assume h: "is_number left \<and> is_number right \<and> is_zero right"
  then obtain a b where ab: "as_num left = Some a" "as_num right = Some b"
    using is_number_as_num by blast
  with h have "py_eq_num b (NInt 0)" using is_zero_eq_num by blast
  with ab show "lox_truediv left right = Inr (VFloat FNaN)"
    by (simp add: lox_truediv_def)
next
  show "show_value H s (VFloat FNaN) = ''nan''" by (rule show_value_nan)
next
  have "lox_truediv (VInt 1) (VInt 0) = Inr (VFloat FNaN)"
    by (simp add: lox_truediv_def py_eq_num_def)
  then show "Program_eval H (Suc (Suc (Suc (Suc d)))) s ctx
        (Program [Print (BinOp (Literal (VInt 1)) (Literal (VInt 0)) Op_truediv)])
      = (Inr (), s\<lparr>stdout := stdout s @ [''nan'']\<rparr>)"
    by (simp add: Program_eval_def eval_Suc show_value_nan)
qed

theorem division_by_zero_is_nan_witness:
  "is_number (VInt 1) \<and> is_number (VFloat FNegZero) \<and> is_zero (VFloat FNegZero)
   \<and> lox_truediv (VInt 1) (VFloat FNegZero) = Inr (VFloat FNaN)"
  using division_by_zero_is_nan [of "VInt 1" "VFloat FNegZero" no_host init_state 0 0]
  by (simp add: is_number_def is_zero_def)

subsection \<open>Negation at zero\<close>

text \<open>
  C10. Unary negation sends every zero-valued number to negative zero: the integer \<open>0\<close>,
  \<open>0.0\<close> and \<open>-0.0\<close> itself all negate to \<open>-0.0\<close>. Negative zero is shown as \<open>-0\<close> while
  the integer zero is shown as \<open>0\<close>, so negating twice does not give the operand back:
  the program \<open>print --0;\<close> writes \<open>-0\<close>.
\<close>

theorem negation_of_zero_is_negative_zero:
  "(is_number v \<and> is_zero v \<longrightarrow> lox_neg v = Inr (VFloat FNegZero))
   \<and> lox_neg (VInt 0) = Inr (VFloat FNegZero)
   \<and> lox_neg (VFloat FNegZero) = Inr (VFloat FNegZero)
   \<and> show_value H s (VFloat FNegZero) = ''-0''
   \<and> show_value H s (VInt 0) = ''0''
   \<and> Program_eval H (Suc (Suc (Suc (Suc (Suc d))))) s ctx
        (Program [Print (UnaryOp Op_neg (UnaryOp Op_neg (Literal (VInt 0))))])
      = (Inr (), s\<lparr>stdout := stdout s @ [''-0'']\<rparr>)"
proof (intro conjI impI)
  assume h: "is_number v \<and> is_zero v"
  then obtain a where a: "as_num v = Some a" using is_number_as_num by blast
  with h have "py_eq_num a (NInt 0)" using is_zero_eq_num by blast
  with a show "lox_neg v = Inr (VFloat FNegZero)" by (simp add: lox_neg_def)
next
  show n0: "lox_neg (VInt 0) = Inr (VFloat FNegZero)"
    by (simp add: lox_neg_def py_eq_num_def)
  show nz: "lox_neg (VFloat FNegZero) = Inr (VFloat FNegZero)"
    by (simp add: lox_neg_def py_eq_num_def)
  show "show_value H s (VFloat FNegZero) = ''-0''" by (rule show_value_neg_zero)
  show "show_value H s (VInt 0) = ''0''"
    by (simp add: show_value_def str_int_def str_nat.simps)
  show "Program_eval H (Suc (Suc (Suc (Suc (Suc d))))) s ctx
        (Program [Print (UnaryOp Op_neg (UnaryOp Op_neg (Literal (VInt 0))))])
      = (Inr (), s\<lparr>stdout := stdout s @ [''-0'']\<rparr>)"
    by (simp add: Program_eval_def eval_Suc n0 nz show_value_neg_zero)
qed

theorem negation_of_zero_is_negative_zero_witness:
  "is_number (VFloat (FFin 0)) \<and> is_zero (VFloat (FFin 0))
   \<and> lox_neg (VFloat (FFin 0)) = Inr (VFloat FNegZero)"
  using negation_of_zero_is_negative_zero [of "VFloat (FFin 0)" no_host init_state 0 0]
  by (simp add: is_number_def is_zero_def)

subsection \<open>Equality\<close>

lemma lox_eq_refl_aux:
  "variant_of v \<noteq> Variant_Host \<Longrightarrow> v \<noteq> VFloat FNaN \<Longrightarrow> lox_eq H s v v"
proof (cases v)
  case (VFloat f)
  assume "v \<noteq> VFloat FNaN"
  with VFloat have "f \<noteq> FNaN" by simp
  then have "py_eq_num (NFloat f) (NFloat f)"
    by (cases f) (simp_all add: py_eq_num_def)
  with VFloat show ?thesis by (simp add: lox_eq_def py_eq_def)
qed (simp_all add: lox_eq_def py_eq_def py_is_def)

lemma variant_py_type: "variant_of a \<noteq> variant_of b \<Longrightarrow> py_type a \<noteq> py_type b"
  by (cases a; cases b) simp_all

text \<open>
  C3, as stated, fails: the number NaN (which \<open>1/0\<close> produces) is a runtime value that
  \<open>lox_eq\<close> does not find equal to itself, because the comparison of two floats is the
  host's.
\<close>

theorem nan_not_equal_to_itself:
  "\<not> lox_eq no_host init_state (VFloat FNaN) (VFloat FNaN)"
  by (simp add: lox_eq_def py_eq_def py_eq_num_def)

text \<open>
  C3, amended. \<open>lox_eq v v\<close> holds for every value \<open>v\<close> of the eight variants of the
  value model other than the number NaN; two values of differing variants are never equal;
  and two function values are equal exactly when they are the same object.
\<close>

theorem lox_eq_reflexive_except_nan_and_variant_strict:
  "(variant_of v \<noteq> Variant_Host \<and> v \<noteq> VFloat FNaN \<longrightarrow> lox_eq H s v v)
   \<and> (variant_of a \<noteq> variant_of b \<longrightarrow> \<not> lox_eq H s a b)
   \<and> (lox_eq H s (VFunction f) (VFunction g) \<longleftrightarrow> f = g)"
proof (intro conjI impI)
  assume "variant_of v \<noteq> Variant_Host \<and> v \<noteq> VFloat FNaN"
  then show "lox_eq H s v v" using lox_eq_refl_aux by blast
next
  assume "variant_of a \<noteq> variant_of b"
  then have "py_type a \<noteq> py_type b" by (rule variant_py_type)
  then show "\<not> lox_eq H s a b" by (simp add: lox_eq_def)
next
  show "lox_eq H s (VFunction f) (VFunction g) \<longleftrightarrow> f = g"
    by (simp add: lox_eq_def py_is_def)
qed

theorem lox_eq_reflexive_except_nan_and_variant_strict_witness:
  "variant_of (VInstance 3) \<noteq> Variant_Host \<and> VInstance 3 \<noteq> VFloat FNaN
   \<and> lox_eq no_host init_state (VInstance 3) (VInstance 3)
   \<and> variant_of (VInt 1) \<noteq> variant_of (VStr ''1'')
   \<and> \<not> lox_eq no_host init_state (VInt 1) (VStr ''1'')
   \<and> \<not> lox_eq no_host init_state (VFunction 1) (VFunction 2)"
  using lox_eq_reflexive_except_nan_and_variant_strict
          [of "VInstance 3" no_host init_state "VInt 1" "VStr ''1''" 1 2]
  by simp

subsection \<open>Arithmetic on non-numbers\<close>

text \<open>
  C4. The claim holds for \<open>lox_sub\<close>, which rejects booleans before testing for numbers,
  but \<open>lox_mul\<close> and \<open>lox_truediv\<close> have no such test: a boolean passes their
  \<open>isinstance(_, (int, float))\<close> check and is used as the integer 0 or 1. So
  \<open>true * 3\<close> is \<open>3\<close> and \<open>true / true\<close> is \<open>1\<close>, where \<open>true - 3\<close> is an error.
\<close>

theorem mul_and_div_accept_booleans:
  "lox_mul (VBool True) (VInt 3) = Inr (VInt 3)
   \<and> lox_truediv (VBool True) (VBool True) = Inr (VFloat (FFin 1))
   \<and> lox_sub (VBool True) (VInt 3) = Inl LoxError"
  by code_simp

subsection \<open>A variable in its own initializer\<close>

text \<open>
  C9. \<open>_uses_variable_in_expression\<close> has no case for the logical operators, so a
  declaration in a block whose initializer reads its own name under \<open>and\<close> or \<open>or\<close>, as in
  \<open>{ var a = a or 1; }\<close>, passes validation, where \<open>{ var a = a + 1; }\<close> is rejected.
\<close>

theorem own_initializer_missed_for_logical_operators:
  "VarDef_validate_self ''a'' (Or (Var ''a'') (Literal (VInt 1)))
      [Node_Stmt (Block [VarDef ''a'' (Or (Var ''a'') (Literal (VInt 1)))]),
       Node_Program (Program [Block [VarDef ''a'' (Or (Var ''a'') (Literal (VInt 1)))]])]
     = Inr ()
   \<and> VarDef_validate_self ''a'' (BinOp (Var ''a'') (Literal (VInt 1)) Op_add)
      [Node_Stmt (Block [VarDef ''a'' (BinOp (Var ''a'') (Literal (VInt 1)) Op_add)]),
       Node_Program (Program [Block [VarDef ''a'' (BinOp (Var ''a'') (Literal (VInt 1)) Op_add)]])]
     = Inl (SemanticError own_initializer_msg)"
  by (simp add: VarDef_validate_self_def RESERVED_WORDS_def)

subsection \<open>Addition\<close>

lemma pow2_powi: "pow2 e = 2 powi e"
  by (simp add: pow2_def power_int_def power_inverse inverse_eq_divide divide_simps)

lemma pow2_pos: "0 < pow2 e"
  by (simp add: pow2_def)

lemma pow2_add: "pow2 (a + b) = pow2 a * pow2 b"
  by (simp add: pow2_powi power_int_add)

lemma pow2_mono: "a \<le> b \<Longrightarrow> pow2 a \<le> pow2 b"
  by (simp add: pow2_powi power_int_increasing)

lemma pow2_nat: "0 \<le> e \<Longrightarrow> pow2 e = of_int (2 ^ nat e)"
  by (simp add: pow2_def)

lemma round_half_even_ge_floor: "\<lfloor>q\<rfloor> \<le> round_half_even q"
  by (simp add: round_half_even_def Let_def)

lemma ilog2_le:
  assumes "0 < q"
  shows "pow2 (ilog2 q) \<le> q"
proof -
  obtain n d where nd: "quotient_of q = (n, d)" by (cases "quotient_of q")
  then have d: "0 < d" by (rule quotient_of_denom_pos)
  from nd have q: "q = of_int n / of_int d" by (rule quotient_of_div)
  with assms d have n: "0 < n" by (simp add: zero_less_divide_iff)
  define k where "k = bitlen n - bitlen d"
  show ?thesis
  proof (cases "pow2 k \<le> q")
    case True
    then show ?thesis by (simp add: ilog2_def nd k_def Let_def)
  next
    case False
    then have il: "ilog2 q = k - 1" by (simp add: ilog2_def nd k_def Let_def)
    from n have bn: "1 \<le> bitlen n" using bitlen_eq_zero_iff [of n] bitlen_nonneg [of n] by linarith
    from d have bd: "1 \<le> bitlen d" using bitlen_eq_zero_iff [of d] bitlen_nonneg [of d] by linarith
    have "(2::int) ^ nat (bitlen n - 1) \<le> n" using bitlen_bounds [OF n] by simp
    then have "rat_of_int (2 ^ nat (bitlen n - 1)) \<le> of_int n" by (simp only: of_int_le_iff)
    then have lo: "pow2 (bitlen n - 1) \<le> of_int n" using bn by (simp add: pow2_nat)
    have "d < 2 ^ nat (bitlen d)" using bitlen_bounds [OF d] by simp
    then have "rat_of_int d \<le> of_int (2 ^ nat (bitlen d))" by (simp only: of_int_le_iff)
    then have hi: "of_int d \<le> pow2 (bitlen d)" using bd by (simp add: pow2_nat)
    have "pow2 (k - 1) * pow2 (bitlen d) = pow2 (bitlen n - 1)"
      by (simp add: pow2_add [symmetric] k_def)
    then have "pow2 (k - 1) = pow2 (bitlen n - 1) / pow2 (bitlen d)"
      using pow2_pos [of "bitlen d"] by (simp add: field_simps)
    also have "\<dots> \<le> of_int n / of_int d"
      using lo hi d pow2_pos [of "bitlen n - 1"] by (intro frac_le) simp_all
    finally have "pow2 (k - 1) \<le> q" unfolding q .
    then show ?thesis unfolding il .
  qed
qed

lemma fl_round_overflow:
  assumes "pow2 1024 \<le> q"
  shows "fl_round s q = FInf s"
proof -
  from assms have qpos: "0 < q" using pow2_pos [of 1024] by linarith
  define e where "e = max (ilog2 q - 52) (- 1074)"
  define m where "m = round_half_even (q / pow2 e)"
  have "pow2 1024 \<le> of_int m * pow2 e"
  proof (cases "e \<le> 1024")
    case True
    have "pow2 (1024 - e) * pow2 e = pow2 1024" by (simp add: pow2_add [symmetric])
    then have "pow2 (1024 - e) = pow2 1024 / pow2 e"
      using pow2_pos [of e] by (simp add: field_simps)
    also have "\<dots> \<le> q / pow2 e" using assms pow2_pos [of e] by (simp add: divide_right_mono)
    finally have "rat_of_int (2 ^ nat (1024 - e)) \<le> q / pow2 e" using True by (simp add: pow2_nat)
    then have "2 ^ nat (1024 - e) \<le> \<lfloor>q / pow2 e\<rfloor>" by (simp only: le_floor_iff)
    then have "2 ^ nat (1024 - e) \<le> m" using round_half_even_ge_floor [of "q / pow2 e"] unfolding m_def by linarith
    then have "rat_of_int (2 ^ nat (1024 - e)) \<le> of_int m" by (simp only: of_int_le_iff)
    then have "pow2 (1024 - e) \<le> of_int m" using True by (simp add: pow2_nat)
    then have "pow2 (1024 - e) * pow2 e \<le> of_int m * pow2 e"
      using pow2_pos [of e] by (simp add: mult_right_mono)
    then show ?thesis by (simp add: pow2_add [symmetric])
  next
    case False
    then have e: "e = ilog2 q - 52" by (simp add: e_def max_def split: if_splits)
    have "pow2 52 * pow2 e = pow2 (ilog2 q)" by (simp add: pow2_add [symmetric] e)
    also have "\<dots> \<le> q" using qpos by (rule ilog2_le)
    finally have "pow2 52 \<le> q / pow2 e" using pow2_pos [of e] by (simp add: field_simps)
    then have "rat_of_int (2 ^ 52) \<le> q / pow2 e" by (simp add: pow2_def)
    then have "2 ^ 52 \<le> \<lfloor>q / pow2 e\<rfloor>" by (simp only: le_floor_iff)
    then have "2 ^ 52 \<le> m" using round_half_even_ge_floor [of "q / pow2 e"] unfolding m_def by linarith
    then have "rat_of_int (2 ^ 52) \<le> of_int m" by (simp only: of_int_le_iff)
    then have "1 \<le> rat_of_int m" by simp
    then have "1 * pow2 e \<le> of_int m * pow2 e" using pow2_pos [of e] by (intro mult_right_mono) simp_all
    moreover have "pow2 1024 \<le> pow2 e" using False by (intro pow2_mono) simp
    ultimately show ?thesis by simp
  qed
  with qpos show ?thesis by (simp add: fl_round_def e_def m_def Let_def)
qed

lemma int_to_float_overflow: "2 ^ 1024 \<le> \<bar>n\<bar> \<Longrightarrow> int_to_float n = Inl OverflowError"
proof -
  assume "2 ^ 1024 \<le> \<bar>n\<bar>"
  then have "rat_of_int (2 ^ 1024) \<le> of_int \<bar>n\<bar>" by (simp only: of_int_le_iff)
  then have "pow2 1024 \<le> \<bar>of_int n\<bar>" by (simp add: pow2_def)
  then show ?thesis by (simp add: int_to_float_def fl_round_overflow)
qed

lemma int_to_float_error: "int_to_float n = Inl e \<Longrightarrow> e = OverflowError"
  by (simp add: int_to_float_def split: pyfloat.splits)

lemma lox_add_succeeds_iff:
  "(\<exists>v. lox_add l r = Inr v) \<longleftrightarrow>
     (is_string l \<and> is_string r) \<or> (is_number l \<and> is_number r \<and> \<not> mixed_overflow l r)"
  by (cases l; cases r)
     (auto simp: lox_add_def isinstance_bool_def is_string_def is_number_def mixed_overflow_def
        py_add_def split: sum.splits dest: int_to_float_error)

lemma lox_add_error:
  "\<not> (is_string l \<and> is_string r) \<Longrightarrow> \<not> (is_number l \<and> is_number r) \<Longrightarrow> lox_add l r = Inl LoxError"
  by (cases l; cases r)
     (simp_all add: lox_add_def isinstance_bool_def is_string_def is_number_def)

lemma lox_add_overflow:
  "mixed_overflow l r \<Longrightarrow> lox_add l r = Inl OverflowError"
  by (cases l; cases r)
     (simp_all add: lox_add_def isinstance_bool_def mixed_overflow_def py_add_def)

text \<open>
  C5, as stated, fails: two numbers do not always add. An integer of magnitude \<open>2^1024\<close>
  or more cannot be converted to a float, so adding it to a float raises the host's
  OverflowError.
\<close>

theorem add_overflows_on_large_integer:
  "is_number (VInt (2 ^ 1024)) \<and> is_number (VFloat (FFin (1 / 2)))
   \<and> lox_add (VInt (2 ^ 1024)) (VFloat (FFin (1 / 2))) = Inl OverflowError"
proof -
  have "int_to_float (2 ^ 1024) = Inl OverflowError"
    by (rule int_to_float_overflow) simp
  then show ?thesis
    by (simp add: is_number_def lox_add_def isinstance_bool_def py_add_def)
qed

text \<open>
  C5, amended. \<open>lox_add\<close> succeeds exactly when both operands are strings, or both are
  numbers and, where one is an integer and the other a float, the integer converts to a
  float. Two strings give their concatenation, two integers their sum, two floats their
  float sum, and an integer with a float the float sum after conversion. Every pair with a
  boolean operand, and every pair that is neither two strings nor two numbers, raises
  LoxError; a pair whose integer does not convert raises OverflowError.
\<close>

theorem add_numbers_or_strings:
  "((\<exists>v. lox_add l r = Inr v) \<longleftrightarrow>
      (is_string l \<and> is_string r) \<or> (is_number l \<and> is_number r \<and> \<not> mixed_overflow l r))
   \<and> (is_boolean l \<or> is_boolean r \<longrightarrow> lox_add l r = Inl LoxError)
   \<and> (\<not> (is_string l \<and> is_string r) \<and> \<not> (is_number l \<and> is_number r) \<longrightarrow> lox_add l r = Inl LoxError)
   \<and> (mixed_overflow l r \<longrightarrow> lox_add l r = Inl OverflowError)
   \<and> lox_add (VStr a) (VStr b) = Inr (VStr (a @ b))
   \<and> lox_add (VInt m) (VInt n) = Inr (VInt (m + n))
   \<and> lox_add (VFloat x) (VFloat y) = Inr (VFloat (float_add x y))
   \<and> (int_to_float m = Inr x \<longrightarrow>
        lox_add (VInt m) (VFloat y) = Inr (VFloat (float_add x y))
        \<and> lox_add (VFloat y) (VInt m) = Inr (VFloat (float_add y x)))"
proof (intro conjI impI)
  show "(\<exists>v. lox_add l r = Inr v) \<longleftrightarrow>
      (is_string l \<and> is_string r) \<or> (is_number l \<and> is_number r \<and> \<not> mixed_overflow l r)"
    by (rule lox_add_succeeds_iff)
  show "lox_add l r = Inl LoxError" if "is_boolean l \<or> is_boolean r"
    using that by (auto simp: lox_add_def is_boolean_def isinstance_bool_def split: val.splits)
  show "lox_add l r = Inl LoxError"
    if "\<not> (is_string l \<and> is_string r) \<and> \<not> (is_number l \<and> is_number r)"
    using that lox_add_error by blast
  show "lox_add l r = Inl OverflowError" if "mixed_overflow l r"
    using that by (rule lox_add_overflow)
  show "lox_add (VStr a) (VStr b) = Inr (VStr (a @ b))"
    by (simp add: lox_add_def isinstance_bool_def)
  show "lox_add (VInt m) (VInt n) = Inr (VInt (m + n))"
    by (simp add: lox_add_def isinstance_bool_def py_add_def)
  show "lox_add (VFloat x) (VFloat y) = Inr (VFloat (float_add x y))"
    by (simp add: lox_add_def isinstance_bool_def py_add_def)
  show "lox_add (VInt m) (VFloat y) = Inr (VFloat (float_add x y))" if "int_to_float m = Inr x"
    using that by (simp add: lox_add_def isinstance_bool_def py_add_def)
  show "lox_add (VFloat y) (VInt m) = Inr (VFloat (float_add y x))" if "int_to_float m = Inr x"
    using that by (simp add: lox_add_def isinstance_bool_def py_add_def)
qed

lemma int_to_float_0: "int_to_float 0 = Inr (FFin 0)"
  by (simp add: int_to_float_def fl_round_def mk_fin_def)

theorem add_numbers_or_strings_witness:
  "(\<exists>v. lox_add (VInt 0) (VFloat (FFin (1 / 2))) = Inr v)
   \<and> is_number (VInt 0) \<and> is_number (VFloat (FFin (1 / 2)))
   \<and> \<not> mixed_overflow (VInt 0) (VFloat (FFin (1 / 2)))
   \<and> int_to_float 0 = Inr (FFin 0)
   \<and> lox_add (VInt 0) (VFloat (FFin (1 / 2))) = Inr (VFloat (float_add (FFin 0) (FFin (1 / 2))))
   \<and> is_boolean (VBool True) \<and> lox_add (VBool True) (VInt 1) = Inl LoxError
   \<and> \<not> is_string VNone \<and> \<not> is_number VNone \<and> lox_add VNone (VStr ''x'') = Inl LoxError
   \<and> mixed_overflow (VFloat (FFin (1 / 2))) (VInt (2 ^ 1024))
   \<and> lox_add (VFloat (FFin (1 / 2))) (VInt (2 ^ 1024)) = Inl OverflowError"
  using add_numbers_or_strings [of "VInt 0" "VFloat (FFin (1 / 2))" "[]" "[]" 0 0 "FFin 0" "FFin (1 / 2)"]
        add_numbers_or_strings [of "VBool True" "VInt 1" "[]" "[]" 0 0 "FFin 0" "FFin 0"]
        add_numbers_or_strings [of "VNone" "VStr ''x''" "[]" "[]" 0 0 "FFin 0" "FFin 0"]
        add_numbers_or_strings [of "VFloat (FFin (1 / 2))" "VInt (2 ^ 1024)" "[]" "[]" 0 0 "FFin 0" "FFin 0"]
        int_to_float_0 int_to_float_overflow [of "2 ^ 1024"]
  by (simp add: is_number_def is_string_def is_boolean_def mixed_overflow_def)

subsection \<open>While loops and the native stack\<close>

lemmas run_simps = eval_Suc init_state_def ctx_var_def_def ctx_lookup_def
  ctx_assign_def ctx_child_def ctx_new_def lox_lt_def lox_add_def py_lt_def py_add_def
  isinstance_bool_def is_lox_true_def truthy_def eval_nat_numeral

lemma counting_cond:
  "eval_expr no_host (Suc (Suc d)) (counter_state k) 0 (BinOp (Var ''i'') (Literal (VInt n)) Op_lt)
     = (Inr (VBool (k < n)), counter_state k)"
  by (simp add: counter_state_def run_simps)

lemma counting_body:
  "eval_stmt no_host (Suc (Suc (Suc d))) (counter_state k) 0
        (ExprStmt (Assign ''i'' (BinOp (Var ''i'') (Literal (VInt 1)) Op_add)))
     = (Inr (), counter_state (k + 1))"
  by (simp add: counter_state_def run_simps)

lemma counting_body_short:
  "fst (eval_stmt no_host (Suc (Suc 0)) (counter_state k) 0
        (ExprStmt (Assign ''i'' (BinOp (Var ''i'') (Literal (VInt 1)) Op_add))))
     = Inl RecursionError"
  by (simp add: counter_state_def run_simps)

lemma counting_loop_low:
  "d < 3 \<Longrightarrow> fst (eval_stmt no_host d (counter_state k) 0 (counting_loop n)) = Inl RecursionError"
proof -
  assume "d < 3"
  then consider "d = 0" | "d = Suc 0" | "d = Suc (Suc 0)" by linarith
  then show ?thesis
    by cases (simp_all add: counting_loop_def eval_Suc)
qed

lemma three_le: "\<not> d < 3 \<Longrightarrow> \<exists>d'. d = Suc (Suc (Suc d'))"
  by (metis add_Suc_right add_Suc_shift less_iff_Suc_add linorder_not_less numeral_3_eq_3 le_iff_add plus_nat.add_0)

lemma counting_loop_depth:
  "k \<le> n \<Longrightarrow>
   fst (eval_stmt no_host d (counter_state k) 0 (counting_loop n))
     = (if nat (n - k) + 3 \<le> d then Inr () else Inl RecursionError)"
proof (induction "nat (n - k)" arbitrary: k d)
  case 0
  then have kn: "k = n" by simp
  show ?case
  proof (cases "d < 3")
    case True
    then show ?thesis using kn by (simp add: counting_loop_low)
  next
    case False
    then obtain d' where d: "d = Suc (Suc (Suc d'))" using three_le by blast
    show ?thesis using kn
      by (simp add: d counting_loop_def eval_stmt_While counting_cond is_lox_true_def truthy_def)
  qed
next
  case (Suc m)
  then have kn: "k < n" and m: "m = nat (n - (k + 1))" and le: "k + 1 \<le> n" by linarith+
  show ?case
  proof (cases "d < 3")
    case True
    then show ?thesis by (simp add: counting_loop_low)
  next
    case False
    then obtain d' where d: "d = Suc (Suc (Suc d'))" using three_le by blast
    show ?thesis
    proof (cases d')
      case 0
      obtain r s2 where b: "eval_stmt no_host (Suc (Suc 0)) (counter_state k) 0
        (ExprStmt (Assign ''i'' (BinOp (Var ''i'') (Literal (VInt 1)) Op_add))) = (r, s2)"
        by (cases "eval_stmt no_host (Suc (Suc 0)) (counter_state k) 0
        (ExprStmt (Assign ''i'' (BinOp (Var ''i'') (Literal (VInt 1)) Op_add)))")
      with counting_body_short [of k] have r: "r = Inl RecursionError" by simp
      have "fst (eval_stmt no_host (Suc (Suc (Suc 0))) (counter_state k) 0 (counting_loop n))
              = Inl RecursionError"
        using kn by (simp add: counting_loop_def eval_stmt_While counting_cond is_lox_true_def truthy_def b r)
      with 0 d kn show ?thesis by simp
    next
      case (Suc d'')
      have "eval_stmt no_host d (counter_state k) 0 (counting_loop n)
              = eval_stmt no_host (Suc (Suc (Suc d''))) (counter_state (k + 1)) 0 (counting_loop n)"
        using kn unfolding d Suc counting_loop_def
        by (simp add: eval_stmt_While counting_cond counting_body is_lox_true_def truthy_def)
      moreover have "(nat (n - (k + 1)) \<le> d'') = (nat (n - k) \<le> Suc d'')"
        using kn by arith
      ultimately show ?thesis
        using Suc.hyps(1) [OF m le, of "Suc (Suc (Suc d''))"] d Suc by simp
    qed
  qed
qed

lemma while_true_exhausts_stack:
  "fst (eval_stmt H d s ctx (While (Literal (VBool True)) (Block []))) = Inl RecursionError"
proof (induction d arbitrary: s)
  case 0
  show ?case by simp
next
  case (Suc d)
  show ?case
  proof (cases d)
    case 0
    then show ?thesis by (simp add: eval_stmt_While)
  next
    case (Suc d')
    obtain c s1 where c: "ctx_child s ctx = (c, s1)" by (cases "ctx_child s ctx")
    have "eval_stmt H (Suc (Suc d')) s ctx (While (Literal (VBool True)) (Block []))
            = eval_stmt H (Suc d') s1 ctx (While (Literal (VBool True)) (Block []))"
      by (simp add: eval_stmt_While eval_expr_Suc eval_stmt_Suc [of H d' s ctx "Block []"]
            c is_lox_true_def truthy_def)
    with Suc.IH [of s1] Suc show ?thesis by simp
  qed
qed

lemma while_iteration_uses_a_frame:
  assumes "eval_expr H d s ctx cond = (Inr c, s1)" and "is_lox_true c"
    and "eval_stmt H d s1 ctx body = (Inr (), s2)"
  shows "eval_stmt H (Suc d) s ctx (While cond body) = eval_stmt H d s2 ctx (While cond body)"
  using assms by (simp add: eval_stmt_While)

text \<open>
  C1, as stated, fails: the stack a loop needs depends on how many iterations it performs.
  Under a limit of four frames the loop \<open>while (i < 3) i = i + 1;\<close> completes when
  entered with \<open>i = 2\<close> (one iteration) and exhausts the stack when entered with \<open>i = 0\<close>
  (three iterations), which a limit of six frames allows.
\<close>

theorem while_stack_depends_on_iterations:
  "fst (eval_stmt no_host 4 (counter_state 2) 0 (counting_loop 3)) = Inr ()
   \<and> fst (eval_stmt no_host 4 (counter_state 0) 0 (counting_loop 3)) = Inl RecursionError
   \<and> fst (eval_stmt no_host 6 (counter_state 0) 0 (counting_loop 3)) = Inr ()"
  using counting_loop_depth [of 2 3 4] counting_loop_depth [of 0 3 4] counting_loop_depth [of 0 3 6]
  by simp

text \<open>
  C1, amended. Evaluating a While statement is recursive, not iterative: after an
  iteration whose condition was truthy and whose body completed, \<open>While.eval\<close> calls
  itself, and that call has one frame less of the native stack available. So the stack
  grows by one frame per iteration performed: under a limit of \<open>d\<close> frames the loop
  \<open>while (i < n) i = i + 1;\<close> entered with \<open>i = k \<le> n\<close> completes exactly when
  \<open>d \<ge> (n - k) + 3\<close>, and \<open>while (true) {}\<close> ends in a RecursionError for every \<open>d\<close>.
\<close>

theorem while_is_recursive:
  "(eval_expr H d s ctx cond = (Inr c, s1) \<and> is_lox_true c \<and> eval_stmt H d s1 ctx body = (Inr (), s2)
      \<longrightarrow> eval_stmt H (Suc d) s ctx (While cond body) = eval_stmt H d s2 ctx (While cond body))
   \<and> (k \<le> n \<longrightarrow>
        fst (eval_stmt no_host d (counter_state k) 0 (counting_loop n))
          = (if nat (n - k) + 3 \<le> d then Inr () else Inl RecursionError))
   \<and> fst (eval_stmt H d s ctx (While (Literal (VBool True)) (Block []))) = Inl RecursionError"
  using while_iteration_uses_a_frame while_true_exhausts_stack counting_loop_depth by simp

theorem while_is_recursive_witness:
  "eval_expr no_host 3 (counter_state 2) 0 (BinOp (Var ''i'') (Literal (VInt 3)) Op_lt)
     = (Inr (VBool True), counter_state 2)
   \<and> is_lox_true (VBool True)
   \<and> eval_stmt no_host 3 (counter_state 2) 0
        (ExprStmt (Assign ''i'' (BinOp (Var ''i'') (Literal (VInt 1)) Op_add)))
     = (Inr (), counter_state 3)
   \<and> eval_stmt no_host 4 (counter_state 2) 0 (counting_loop 3)
     = eval_stmt no_host 3 (counter_state 3) 0 (counting_loop 3)
   \<and> (2::int) \<le> 3
   \<and> fst (eval_stmt no_host 3 (counter_state 2) 0 (counting_loop 3)) = Inl RecursionError"
proof -
  have 1: "eval_expr no_host 3 (counter_state 2) 0 (BinOp (Var ''i'') (Literal (VInt 3)) Op_lt)
     = (Inr (VBool True), counter_state 2)"
    by (simp add: counter_state_def run_simps)
  have 2: "is_lox_true (VBool True)" by (simp add: is_lox_true_def truthy_def)
  have 3: "eval_stmt no_host 3 (counter_state 2) 0
        (ExprStmt (Assign ''i'' (BinOp (Var ''i'') (Literal (VInt 1)) Op_add)))
     = (Inr (), counter_state 3)"
    by (simp add: counter_state_def run_simps)
  from 1 2 3 while_is_recursive [of no_host 3 "counter_state 2" 0
      "BinOp (Var ''i'') (Literal (VInt 3)) Op_lt" "VBool True" "counter_state 2"
      "ExprStmt (Assign ''i'' (BinOp (Var ''i'') (Literal (VInt 1)) Op_add))" "counter_state 3" 2 3]
  show ?thesis by (simp add: counting_loop_def)
qed

subsection \<open>Class declarations\<close>

lemma eval_stmt_Class:
  "eval_stmt H (Suc d) s ctx (Class name superclass_expr method_defs) =
     (case eval_superclass (frames H d) s ctx superclass_expr of
        (Inl x, s1) \<Rightarrow> (Inl x, s1)
      | (Inr superclass, s1) \<Rightarrow>
          (case method_scope s1 ctx superclass of
             (method_ctx, s2) \<Rightarrow>
               (case build_methods s2 method_ctx method_defs [] of
                  (Inl x, s3) \<Rightarrow> (Inl x, s3)
                | (Inr methods, s3) \<Rightarrow>
                    (case alloc_class s3 \<lparr>c_name = name, c_methods = methods, c_base = superclass\<rparr> of
                       (lox_class, s4) \<Rightarrow> (Inr (), ctx_var_def s4 ctx name (VClass lox_class))))))"
  unfolding eval_stmt_Suc Stmt_eval.simps by (rule refl)

lemma superclass_not_class:
  "eval_expr H d s ctx e = (Inr v, s1) \<Longrightarrow> variant_of v \<noteq> Variant_Class \<Longrightarrow>
   eval_superclass (frames H d) s ctx (Some e) = (Inl (RuntimeError ''Superclass must be a class.''), s1)"
  by (cases v) (simp_all add: eval_superclass_def)

lemma superclass_class:
  "eval_expr H d s ctx e = (Inr (VClass c), s1) \<Longrightarrow>
   eval_superclass (frames H d) s ctx (Some e) = (Inr (Some c), s1)"
  by (simp add: eval_superclass_def)

lemma superclass_raises:
  "eval_expr H d s ctx e = (Inl x, s1) \<Longrightarrow>
   eval_superclass (frames H d) s ctx (Some e) = (if is_RuntimeError x then (Inl x, s1) else (Inr None, s1))"
  by (simp add: eval_superclass_def)

lemma superclass_absent: "eval_superclass E s ctx None = (Inr None, s)"
  by (simp add: eval_superclass_def)

text \<open>
  C7, amended. For a class declaration with a superclass expression: if the expression
  yields a value that is not a class, the declaration fails with
  RuntimeError \<open>Superclass must be a class.\<close>; if its evaluation raises a RuntimeError
  (which includes the exhaustion of the stack), that error propagates; and if its
  evaluation raises any other error, the error is discarded and the declaration proceeds
  exactly as one without a superclass.
\<close>

theorem class_superclass_evaluation:
  "(eval_expr H d s ctx e = (Inr v, s1) \<and> variant_of v \<noteq> Variant_Class \<longrightarrow>
      eval_stmt H (Suc d) s ctx (Class name (Some e) ms)
        = (Inl (RuntimeError ''Superclass must be a class.''), s1))
   \<and> (eval_expr H d s ctx e = (Inl x, s1) \<and> is_RuntimeError x \<longrightarrow>
      eval_stmt H (Suc d) s ctx (Class name (Some e) ms) = (Inl x, s1))
   \<and> (eval_expr H d s ctx e = (Inl x, s1) \<and> \<not> is_RuntimeError x \<longrightarrow>
      eval_stmt H (Suc d) s ctx (Class name (Some e) ms)
        = eval_stmt H (Suc d) s1 ctx (Class name None ms))"
proof (intro conjI impI)
  assume "eval_expr H d s ctx e = (Inr v, s1) \<and> variant_of v \<noteq> Variant_Class"
  then show "eval_stmt H (Suc d) s ctx (Class name (Some e) ms)
        = (Inl (RuntimeError ''Superclass must be a class.''), s1)"
    by (simp add: eval_stmt_Class superclass_not_class)
next
  assume "eval_expr H d s ctx e = (Inl x, s1) \<and> is_RuntimeError x"
  then show "eval_stmt H (Suc d) s ctx (Class name (Some e) ms) = (Inl x, s1)"
    by (simp add: eval_stmt_Class superclass_raises)
next
  assume "eval_expr H d s ctx e = (Inl x, s1) \<and> \<not> is_RuntimeError x"
  then show "eval_stmt H (Suc d) s ctx (Class name (Some e) ms)
        = eval_stmt H (Suc d) s1 ctx (Class name None ms)"
    by (simp add: eval_stmt_Class superclass_raises superclass_absent)
qed

lemmas obj_simps = alloc_class_def alloc_function_def alloc_instance_def alloc_lambda_def
  bind_def method_scope_def dict_zip_def LoxFunction_call_def LoxClass_call_def
  LoxInstance_init_def LoxInstance_get_def LoxInstance_set_def

text \<open>
  C7, as stated, fails: when the evaluation of the superclass expression fails with an
  error that is not a RuntimeError, the declaration does not fail. \<open>class B < Undefined {}\<close>,
  whose superclass expression raises NameError, completes normally and defines \<open>B\<close> as a
  class without a superclass.
\<close>

theorem undefined_superclass_is_dropped:
  "fst (eval_expr no_host 1 init_state 0 (Var ''Undefined'')) = Inl NameError
   \<and> fst (eval_stmt no_host 2 init_state 0 (Class ''B'' (Some (Var ''Undefined'')) [])) = Inr ()
   \<and> ctx_lookup (snd (eval_stmt no_host 2 init_state 0 (Class ''B'' (Some (Var ''Undefined'')) [])))
        0 ''B'' = Some (VClass 1)
   \<and> c_base (class_heap (snd (eval_stmt no_host 2 init_state 0
        (Class ''B'' (Some (Var ''Undefined'')) []))) 1) = None"
  by (simp add: eval_stmt_Class eval_superclass_def run_simps obj_simps)

theorem class_superclass_evaluation_witness:
  "eval_expr no_host 1 init_state 0 (Literal (VInt 1)) = (Inr (VInt 1), init_state)
   \<and> variant_of (VInt 1) \<noteq> Variant_Class
   \<and> eval_stmt no_host 2 init_state 0 (Class ''B'' (Some (Literal (VInt 1))) [])
        = (Inl (RuntimeError ''Superclass must be a class.''), init_state)
   \<and> eval_expr no_host 0 init_state 0 (Var ''A'') = (Inl RecursionError, init_state)
   \<and> is_RuntimeError RecursionError
   \<and> eval_stmt no_host 1 init_state 0 (Class ''B'' (Some (Var ''A'')) [])
        = (Inl RecursionError, init_state)
   \<and> eval_expr no_host 1 init_state 0 (Var ''Undefined'') = (Inl NameError, init_state)
   \<and> \<not> is_RuntimeError NameError
   \<and> eval_stmt no_host 2 init_state 0 (Class ''B'' (Some (Var ''Undefined'')) [])
        = eval_stmt no_host 2 init_state 0 (Class ''B'' None [])"
proof -
  have 1: "eval_expr no_host 1 init_state 0 (Literal (VInt 1)) = (Inr (VInt 1), init_state)"
    by (simp add: run_simps)
  have 2: "eval_expr no_host 0 init_state 0 (Var ''A'') = (Inl RecursionError, init_state)"
    by simp
  have 3: "eval_expr no_host 1 init_state 0 (Var ''Undefined'') = (Inl NameError, init_state)"
    by (simp add: run_simps)
  from 1 2 3
    class_superclass_evaluation [of no_host "Suc 0" init_state 0 "Literal (VInt 1)" "VInt 1" init_state
       "''B''" "[]" NameError]
    class_superclass_evaluation [of no_host 0 init_state 0 "Var ''A''" VNone init_state
       "''B''" "[]" RecursionError]
    class_superclass_evaluation [of no_host "Suc 0" init_state 0 "Var ''Undefined''" VNone init_state
       "''B''" "[]" NameError]
  show ?thesis by (simp add: eval_nat_numeral)
qed

subsection \<open>Invoking a class\<close>

lemma call_class_with_init:
  assumes "alloc_instance s \<lparr>i_lox_class = c, i_fields = []\<rparr> = (i, s1)"
    and "get_method d s1 c ''init'' = Inr m"
    and "bind s1 m (VInstance i) = (b, s2)"
    and "call_function H d s2 b args = (Inr v, s3)"
  shows "call_class H (Suc d) s c args = (Inr (VInstance i), s3)"
  using assms by (simp add: call_class_Suc LoxClass_call_def)

lemma call_class_without_init:
  assumes "alloc_instance s \<lparr>i_lox_class = c, i_fields = []\<rparr> = (i, s1)"
    and "get_method d s1 c ''init'' = Inl x"
  shows "call_class H (Suc d) s c args
           = (if args \<noteq> [] then (Inl TypeError, s1) else (Inr (VInstance i), s1))"
  using assms by (simp add: call_class_Suc LoxClass_call_def)

lemma alloc_instance_fresh:
  assumes "alloc_instance s inst = (i, s1)"
  shows "i = next_ref s \<and> instance_heap s1 i = inst"
  using assms by (auto simp: alloc_instance_def)

lemma get_method_class_heap:
  "class_heap s1 = class_heap s \<Longrightarrow> get_method d s1 c name = get_method d s c name"
  by (induction d arbitrary: c) (simp_all split: option.splits)

lemma no_method_get_method: "no_method s c name \<Longrightarrow> \<exists>x. get_method d s c name = Inl x"
proof (induction arbitrary: d rule: no_method.induct)
  case (no_base s c name)
  then show ?case by (cases d) simp_all
next
  case (in_base s c name b)
  show ?case
  proof (cases d)
    case 0
    then show ?thesis by simp
  next
    case (Suc d')
    from in_base.IH [of d'] obtain x where "get_method d' s b name = Inl x" by blast
    with in_base.hyps Suc show ?thesis by simp
  qed
qed

lemma alloc_instance_class_heap:
  "alloc_instance s inst = (i, s1) \<Longrightarrow> class_heap s1 = class_heap s"
  by (auto simp: alloc_instance_def)

lemma call_class_no_method:
  assumes "alloc_instance s \<lparr>i_lox_class = c, i_fields = []\<rparr> = (i, s1)"
    and "no_method s c ''init''" and "args \<noteq> []"
  shows "call_class H (Suc d) s c args = (Inl TypeError, s1)"
proof -
  from assms(2) obtain x where "get_method d s c ''init'' = Inl x"
    using no_method_get_method by blast
  with assms(1) have "get_method d s1 c ''init'' = Inl x"
    using get_method_class_heap [OF alloc_instance_class_heap] by simp
  with assms(1,3) show ?thesis
    by (simp add: call_class_without_init)
qed

lemma call_class_failing_init:
  assumes "alloc_instance s \<lparr>i_lox_class = c, i_fields = []\<rparr> = (i, s1)"
    and "get_method d s1 c ''init'' = Inr m"
    and "bind s1 m (VInstance i) = (b, s2)"
    and "call_function H d s2 b args = (Inl x, s3)"
  shows "call_class H (Suc d) s c args
           = (if args \<noteq> [] then (Inl TypeError, s3) else (Inr (VInstance i), s3))"
  using assms by (simp add: call_class_Suc LoxClass_call_def)

lemma call_class_no_method_no_args:
  assumes "alloc_instance s \<lparr>i_lox_class = c, i_fields = []\<rparr> = (i, s1)"
    and "no_method s c ''init''"
  shows "call_class H (Suc d) s c [] = (Inr (VInstance i), s1)"
proof -
  from assms(2) obtain x where "get_method d s c ''init'' = Inl x"
    using no_method_get_method by blast
  with assms(1) have "get_method d s1 c ''init'' = Inl x"
    using get_method_class_heap [OF alloc_instance_class_heap] by simp
  with assms(1) show ?thesis
    by (simp add: call_class_without_init)
qed

lemma call_class_result:
  assumes "call_class H (Suc d) s c args = (Inr r, s')"
  shows "r = VInstance (next_ref s)"
  using assms
  by (auto simp: call_class_Suc LoxClass_call_def alloc_instance_def
      split: sum.splits prod.splits if_splits)

lemma call_class_no_args:
  "fst (call_class H (Suc d) s c []) = Inr (VInstance (next_ref s))"
  by (auto simp: call_class_Suc LoxClass_call_def alloc_instance_def
      split: sum.splits prod.splits if_splits)

lemma call_class_error:
  assumes "call_class H (Suc d) s c args = (Inl x, s')"
  shows "x = TypeError \<and> args \<noteq> []"
  using assms
  by (auto simp: call_class_Suc LoxClass_call_def alloc_instance_def
      split: sum.splits prod.splits if_splits)

text \<open>
  C8. Invoking a class, with at least one frame left for the call, allocates a new
  instance of it with no fields, at the next free address. Every value that the
  invocation returns is that instance, in whatever way the invocation went; with no
  arguments it always returns it, also for a class that has no \<open>init\<close> and for an
  \<open>init\<close> whose call fails; and the only error it ever ends in is a TypeError, raised
  only when arguments were supplied. In detail: if method resolution finds \<open>init\<close> and
  the call of the bound \<open>init\<close> returns, whatever value \<open>v\<close> it returns, the result is the
  new instance; if that call fails, the failure is discarded and the result is the new
  instance when no argument was supplied and a TypeError otherwise; if no class of the
  inheritance chain has an \<open>init\<close> method, the result is the new instance when no
  argument was supplied and a TypeError when at least one was.
\<close>

theorem class_call_returns_instance:
  "(call_class H (Suc d) s c args = (Inr r, s') \<longrightarrow> r = VInstance (next_ref s))
   \<and> (args = [] \<longrightarrow> fst (call_class H (Suc d) s c args) = Inr (VInstance (next_ref s)))
   \<and> (call_class H (Suc d) s c args = (Inl x, s') \<longrightarrow> x = TypeError \<and> args \<noteq> [])
   \<and> (alloc_instance s \<lparr>i_lox_class = c, i_fields = []\<rparr> = (i, s1)
      \<and> get_method d s1 c ''init'' = Inr m
      \<and> bind s1 m (VInstance i) = (b, s2)
      \<and> call_function H d s2 b args = (Inr v, s3)
      \<longrightarrow> call_class H (Suc d) s c args = (Inr (VInstance i), s3))
   \<and> (alloc_instance s \<lparr>i_lox_class = c, i_fields = []\<rparr> = (i, s1)
      \<and> get_method d s1 c ''init'' = Inr m
      \<and> bind s1 m (VInstance i) = (b, s2)
      \<and> call_function H d s2 b args = (Inl y, s3)
      \<longrightarrow> call_class H (Suc d) s c args
           = (if args \<noteq> [] then (Inl TypeError, s3) else (Inr (VInstance i), s3)))
   \<and> (alloc_instance s \<lparr>i_lox_class = c, i_fields = []\<rparr> = (i, s1)
      \<and> no_method s c ''init'' \<and> args \<noteq> []
      \<longrightarrow> call_class H (Suc d) s c args = (Inl TypeError, s1))
   \<and> (alloc_instance s \<lparr>i_lox_class = c, i_fields = []\<rparr> = (i, s1)
      \<and> no_method s c ''init'' \<and> args = []
      \<longrightarrow> call_class H (Suc d) s c args = (Inr (VInstance i), s1))
   \<and> (alloc_instance s \<lparr>i_lox_class = c, i_fields = []\<rparr> = (i, s1)
      \<longrightarrow> i = next_ref s \<and> instance_heap s1 i = \<lparr>i_lox_class = c, i_fields = []\<rparr>)"
proof (intro conjI impI)
  assume "call_class H (Suc d) s c args = (Inr r, s')"
  then show "r = VInstance (next_ref s)" by (rule call_class_result)
next
  assume "args = []"
  then show "fst (call_class H (Suc d) s c args) = Inr (VInstance (next_ref s))"
    by (simp add: call_class_no_args)
next
  assume e: "call_class H (Suc d) s c args = (Inl x, s')"
  then show "x = TypeError" using call_class_error by blast
  from e show "args \<noteq> []" using call_class_error by blast
next
  assume "alloc_instance s \<lparr>i_lox_class = c, i_fields = []\<rparr> = (i, s1)
      \<and> get_method d s1 c ''init'' = Inr m
      \<and> bind s1 m (VInstance i) = (b, s2)
      \<and> call_function H d s2 b args = (Inr v, s3)"
  then show "call_class H (Suc d) s c args = (Inr (VInstance i), s3)"
    using call_class_with_init by blast
next
  assume "alloc_instance s \<lparr>i_lox_class = c, i_fields = []\<rparr> = (i, s1)
      \<and> get_method d s1 c ''init'' = Inr m
      \<and> bind s1 m (VInstance i) = (b, s2)
      \<and> call_function H d s2 b args = (Inl y, s3)"
  then show "call_class H (Suc d) s c args
           = (if args \<noteq> [] then (Inl TypeError, s3) else (Inr (VInstance i), s3))"
    using call_class_failing_init by blast
next
  assume "alloc_instance s \<lparr>i_lox_class = c, i_fields = []\<rparr> = (i, s1)
      \<and> no_method s c ''init'' \<and> args \<noteq> []"
  then show "call_class H (Suc d) s c args = (Inl TypeError, s1)"
    using call_class_no_method by blast
next
  assume "alloc_instance s \<lparr>i_lox_class = c, i_fields = []\<rparr> = (i, s1)
      \<and> no_method s c ''init'' \<and> args = []"
  then show "call_class H (Suc d) s c args = (Inr (VInstance i), s1)"
    using call_class_no_method_no_args by blast
next
  assume a: "alloc_instance s \<lparr>i_lox_class = c, i_fields = []\<rparr> = (i, s1)"
  then show "i = next_ref s" using alloc_instance_fresh by blast
  from a show "instance_heap s1 i = \<lparr>i_lox_class = c, i_fields = []\<rparr>"
    using alloc_instance_fresh by blast
qed

lemma init_class_state_eq:
  "init_class_state =
     init_state
       \<lparr>fun_heap := (fun_heap init_state)
          (1 := \<lparr>f_name = ''init'', f_arg_names = [''a''],
                 f_body = [Return (Literal (VInt 42))], f_ctx = 0\<rparr>),
        class_heap := (class_heap init_state)
          (2 := \<lparr>c_name = ''C'', c_methods = [(''init'', 1)], c_base = None\<rparr>),
        frame_heap := (frame_heap init_state)
          (0 := \<lparr>vars = [(''C'', VClass 2)], parent = None\<rparr>),
        next_ref := 3\<rparr>"
  by (simp add: init_class_state_def eval_stmt_Class eval_superclass_def run_simps obj_simps)

lemma init_call_alloc: "alloc_instance init_class_state \<lparr>i_lox_class = 2, i_fields = []\<rparr> = (3, init_call_store1)"
  by (simp add: init_call_store1_def init_class_state_eq alloc_instance_def init_state_def)

lemma init_call_lookup: "get_method 3 init_call_store1 2 ''init'' = Inr 1"
  by (simp add: init_call_store1_def init_class_state_eq alloc_instance_def init_state_def
        eval_nat_numeral)

lemma init_call_bind: "bind init_call_store1 1 (VInstance 3) = (5, init_call_store2)"
proof -
  have "fst (bind init_call_store1 1 (VInstance 3)) = 5"
    by (simp add: init_call_store1_def init_class_state_eq init_state_def obj_simps
          ctx_child_def ctx_new_def ctx_var_def_def)
  then show ?thesis by (simp add: init_call_store2_def prod_eq_iff)
qed

lemma init_call_returns: "call_function no_host 3 init_call_store2 5 [VInt 7] = (Inr (VInt 42), init_call_store3)"
proof -
  have "fst (call_function no_host 3 init_call_store2 5 [VInt 7]) = Inr (VInt 42)"
    by (simp add: init_call_store2_def init_call_store1_def init_class_state_eq init_state_def
          obj_simps run_simps AList.update.simps)
  then show ?thesis by (simp add: init_call_store3_def prod_eq_iff)
qed

lemma empty_class_state_eq:
  "empty_class_state =
     init_state
       \<lparr>class_heap := (class_heap init_state)
          (1 := \<lparr>c_name = ''D'', c_methods = [], c_base = None\<rparr>),
        frame_heap := (frame_heap init_state)
          (0 := \<lparr>vars = [(''D'', VClass 1)], parent = None\<rparr>),
        next_ref := 2\<rparr>"
  by (simp add: empty_class_state_def eval_stmt_Class eval_superclass_def run_simps obj_simps)

lemma empty_call_alloc:
  "alloc_instance empty_class_state \<lparr>i_lox_class = 1, i_fields = []\<rparr>
     = (2, snd (alloc_instance empty_class_state \<lparr>i_lox_class = 1, i_fields = []\<rparr>))"
  by (simp add: empty_class_state_eq alloc_instance_def init_state_def)

lemma empty_class_no_init: "no_method empty_class_state 1 ''init''"
  by (rule no_method.no_base) (simp_all add: empty_class_state_eq init_state_def)

lemma init_call_fails:
  "call_function no_host 3 init_call_store2 5 [] = (Inl TypeError, init_call_store2)"
  by (simp add: init_call_store2_def init_call_store1_def init_class_state_eq init_state_def
        obj_simps run_simps)

theorem class_call_returns_instance_witness:
  "alloc_instance init_class_state \<lparr>i_lox_class = 2, i_fields = []\<rparr> = (3, init_call_store1)
   \<and> get_method 3 init_call_store1 2 ''init'' = Inr 1
   \<and> bind init_call_store1 1 (VInstance 3) = (5, init_call_store2)
   \<and> call_function no_host 3 init_call_store2 5 [VInt 7] = (Inr (VInt 42), init_call_store3)
   \<and> call_class no_host 4 init_class_state 2 [VInt 7] = (Inr (VInstance 3), init_call_store3)
   \<and> VInstance 3 = VInstance (next_ref init_class_state)
   \<and> call_function no_host 3 init_call_store2 5 [] = (Inl TypeError, init_call_store2)
   \<and> call_class no_host 4 init_class_state 2 [] = (Inr (VInstance 3), init_call_store2)
   \<and> no_method empty_class_state 1 ''init''
   \<and> call_class no_host 2 empty_class_state 1 [VInt 7]
       = (Inl TypeError, snd (alloc_instance empty_class_state \<lparr>i_lox_class = 1, i_fields = []\<rparr>))
   \<and> call_class no_host 2 empty_class_state 1 []
       = (Inr (VInstance 2), snd (alloc_instance empty_class_state \<lparr>i_lox_class = 1, i_fields = []\<rparr>))
   \<and> fst (call_class no_host 2 empty_class_state 1 []) = Inr (VInstance (next_ref empty_class_state))"
proof -
  have n4: "Suc 3 = 4" and n2: "Suc 1 = 2" by simp_all
  have a: "call_class no_host (Suc 3) init_class_state 2 [VInt 7] = (Inr (VInstance 3), init_call_store3)"
    using init_call_alloc init_call_lookup init_call_bind init_call_returns
      class_call_returns_instance [where H = no_host and d = 3 and s = init_class_state and c = 2
        and args = "[VInt 7]" and i = 3 and ?s1.0 = init_call_store1 and m = 1 and b = 5
        and ?s2.0 = init_call_store2 and v = "VInt 42" and ?s3.0 = init_call_store3]
    by blast
  have r: "VInstance 3 = VInstance (next_ref init_class_state)"
    using a class_call_returns_instance [where H = no_host and d = 3 and s = init_class_state
        and c = 2 and args = "[VInt 7]" and r = "VInstance 3" and s' = init_call_store3]
    by blast
  have f: "call_class no_host (Suc 3) init_class_state 2 [] = (Inr (VInstance 3), init_call_store2)"
    using init_call_alloc init_call_lookup init_call_bind init_call_fails
      class_call_returns_instance [where H = no_host and d = 3 and s = init_class_state and c = 2
        and args = "[]" and i = 3 and ?s1.0 = init_call_store1 and m = 1 and b = 5
        and ?s2.0 = init_call_store2 and y = TypeError and ?s3.0 = init_call_store2]
    by simp
  have b: "call_class no_host (Suc 1) empty_class_state 1 [VInt 7]
       = (Inl TypeError, snd (alloc_instance empty_class_state \<lparr>i_lox_class = 1, i_fields = []\<rparr>))"
    using empty_call_alloc empty_class_no_init
      class_call_returns_instance [where H = no_host and d = 1 and s = empty_class_state and c = 1
        and args = "[VInt 7]" and i = 2
        and ?s1.0 = "snd (alloc_instance empty_class_state \<lparr>i_lox_class = 1, i_fields = []\<rparr>)"]
    by blast
  have c: "call_class no_host (Suc 1) empty_class_state 1 []
       = (Inr (VInstance 2), snd (alloc_instance empty_class_state \<lparr>i_lox_class = 1, i_fields = []\<rparr>))"
    using empty_call_alloc empty_class_no_init
      class_call_returns_instance [where H = no_host and d = 1 and s = empty_class_state and c = 1
        and args = "[]" and i = 2
        and ?s1.0 = "snd (alloc_instance empty_class_state \<lparr>i_lox_class = 1, i_fields = []\<rparr>)"]
    by blast
  have e: "fst (call_class no_host (Suc 1) empty_class_state 1 [])
       = Inr (VInstance (next_ref empty_class_state))"
    using class_call_returns_instance [where H = no_host and d = 1 and s = empty_class_state
        and c = 1 and args = "[]"]
    by blast
  show ?thesis
    using init_call_alloc init_call_lookup init_call_bind init_call_returns init_call_fails
      empty_class_no_init a [unfolded n4] r f [unfolded n4] b [unfolded n2] c [unfolded n2]
      e [unfolded n2]
    by blast
qed

subsection \<open>Attribute access on a SuperProxy\<close>

lemmas prog_simps = Program_eval_def super_proxy_run_def super_proxy_program_def run_simps
  obj_simps eval_superclass_def wrapped_call_def alloc_super_def LoxFunction_getattr_def
  Ctx_getattr_def Ctx_getitem_def show_value_def no_host_def add_Suc_right

lemma getattr_super_proxy:
  assumes "eval_expr H d s ctx obj = (Inr (VSuper r), s1)"
    and "super_heap s1 r = Some c"
    and "get_method d s1 c attr = Inr m"
  shows "eval_expr H (Suc d) s ctx (Getattr obj attr) = (Inr (VFunction m), s1)"
  using assms by (simp add: eval_expr_Suc)

lemma super_binds:
  assumes "ctx_lookup s ctx ''super'' = Some (VClass c)"
    and "ctx_lookup s ctx ''this'' = Some this_instance"
    and "get_method d s c name = Inr m"
  shows "eval_expr H (Suc d) s ctx (Super name)
           = (Inr (VFunction (fst (bind s m this_instance))), snd (bind s m this_instance))"
  using assms by (simp add: eval_expr_Suc split: prod.splits)

lemma super_proxy_run_result: "fst (super_proxy_run d) = Inl NameError"
  by (simp add: prog_simps)

lemma super_proxy_run_stdout:
  "stdout (snd (super_proxy_run d)) = [''B instance'', ''super'', ''<fn f>'']"
  by (simp add: prog_simps)

lemma super_proxy_run_root:
  "vars (frame_heap (snd (super_proxy_run d)) 0)
     = [(''A'', VClass 2), (''B'', VClass 6), (''b'', VInstance 7), (''bg'', VFunction 15),
        (''m'', VFunction 1)]"
  by (simp add: prog_simps)

lemma super_proxy_run_table:
  "c_methods (class_heap (snd (super_proxy_run d)) 2) = [(''f'', 1)]
   \<and> c_base (class_heap (snd (super_proxy_run d)) 6) = Some 2
   \<and> i_lox_class (instance_heap (snd (super_proxy_run d)) 7) = 6"
  by (simp add: prog_simps)

lemma super_proxy_run_proxy:
  "super_heap (snd (super_proxy_run d)) 16 = Some 2
   \<and> frame_heap (snd (super_proxy_run d)) 17
       = \<lparr>vars = [(''super'', VSuper 16)], parent = Some 14\<rparr>
   \<and> frame_heap (snd (super_proxy_run d)) 14
       = \<lparr>vars = [(''this'', VInstance 7)], parent = Some 3\<rparr>"
  by (simp add: prog_simps)

lemma super_proxy_run_no_this:
  "ctx_lookup (snd (super_proxy_run d)) (f_ctx (fun_heap (snd (super_proxy_run d)) 1)) ''this''
     = None"
  by (simp add: prog_simps)

lemma super_proxy_run_call:
  "fst (eval_expr no_host (d + 4) (snd (super_proxy_run d)) 0 (Call (Var ''m'') []))
     = Inl NameError"
  by (simp add: prog_simps)

lemma super_proxy_run_super:
  "fst (eval_expr no_host (d + 6) (snd (super_proxy_run d)) 0
          (Call (Call (Getattr (Var ''b'') ''k'') []) []))
     = Inr (VInstance 7)"
  by (simp add: prog_simps)

text \<open>
  C6. \<^verbatim>\<open>Getattr.eval\<close> on a \<^verbatim>\<open>LoxSuper\<close> receiver returns the function object stored
  in the method table of the base class as it is, without binding it. In
  \<open>super_proxy_program\<close> the call \<^verbatim>\<open>bg.__call__()\<close> runs \<^verbatim>\<open>wrapped_call\<close>, which
  binds \<open>super\<close> to a new \<^verbatim>\<open>LoxSuper\<close> for \<open>A\<close> (address 16) in the environment of
  the method \<open>g\<close> bound to the instance \<open>b\<close> (address 7). Inside \<open>g\<close>, where \<open>this\<close>
  is \<open>b\<close>, the receiver \<^verbatim>\<open>bg.ctx.__getitem__("super")\<close> evaluates to that
  \<^verbatim>\<open>LoxSuper\<close> (it is printed as \<open>super\<close>), and the attribute \<open>f\<close> of it to the
  entry of the method table of \<open>A\<close> itself (function 1, printed as \<^verbatim>\<open><fn f>\<close>), whose
  environment binds no \<open>this\<close>: the call \<^verbatim>\<open>m()\<close> of this method, whose body is
  \<^verbatim>\<open>return this;\<close>, fails with a NameError. Through the node \<^verbatim>\<open>Super\<close>, which
  binds the method it finds, the same method returns the instance: \<^verbatim>\<open>b.k()()\<close> is
  \<open>b\<close>. With 11 frames or more the program prints three lines and ends in the NameError.
\<close>

theorem super_proxy_getattr_is_unbound:
  "fst (super_proxy_run d) = Inl NameError
   \<and> stdout (snd (super_proxy_run d)) = [''B instance'', ''super'', ''<fn f>'']
   \<and> vars (frame_heap (snd (super_proxy_run d)) 0)
       = [(''A'', VClass 2), (''B'', VClass 6), (''b'', VInstance 7), (''bg'', VFunction 15),
          (''m'', VFunction 1)]
   \<and> c_methods (class_heap (snd (super_proxy_run d)) 2) = [(''f'', 1)]
   \<and> c_base (class_heap (snd (super_proxy_run d)) 6) = Some 2
   \<and> i_lox_class (instance_heap (snd (super_proxy_run d)) 7) = 6
   \<and> super_heap (snd (super_proxy_run d)) 16 = Some 2
   \<and> frame_heap (snd (super_proxy_run d)) 17
       = \<lparr>vars = [(''super'', VSuper 16)], parent = Some 14\<rparr>
   \<and> frame_heap (snd (super_proxy_run d)) 14
       = \<lparr>vars = [(''this'', VInstance 7)], parent = Some 3\<rparr>
   \<and> ctx_lookup (snd (super_proxy_run d)) (f_ctx (fun_heap (snd (super_proxy_run d)) 1)) ''this''
       = None
   \<and> fst (eval_expr no_host (d + 4) (snd (super_proxy_run d)) 0 (Call (Var ''m'') []))
       = Inl NameError
   \<and> fst (eval_expr no_host (d + 6) (snd (super_proxy_run d)) 0
            (Call (Call (Getattr (Var ''b'') ''k'') []) []))
       = Inr (VInstance 7)"
  using super_proxy_run_result super_proxy_run_stdout super_proxy_run_root super_proxy_run_table
    super_proxy_run_proxy super_proxy_run_no_this super_proxy_run_call super_proxy_run_super
  by blast

end
